theory Spec2Isabelle
  imports Main "HOL-Library.AList"
begin

section \<open>Data model (backend/models.py)\<close>

text \<open>
  A Python \<open>dict\<close> is an association list in insertion order: \<open>d.get(k)\<close> is
  \<open>map_of d k\<close>, \<open>d[k] = v\<close> is \<open>AList.update k v d\<close> (an existing key keeps its place,
  a new key goes last), \<open>del d[k]\<close> is \<open>AList.delete k d\<close>, and \<open>d.items()\<close> is the
  list itself.
  A \<open>datetime\<close> is an integer number of microseconds; every \<open>datetime.utcnow()\<close> read
  by one call of an operation is the parameter \<open>now\<close> of that call. The value of a
  \<open>uuid.uuid4()\<close> default factory is the parameter \<open>uuid\<close> of the constructor.
  The fields of \<open>Player\<close> and \<open>Room\<close> keep their names behind the prefixes \<open>p_\<close> and
  \<open>r_\<close>; a method \<open>_name\<close> is the function \<open>name\<close>.
\<close>

type_synonym ('k, 'v) dict = "('k \<times> 'v) list"

datatype PlayerStatus = CONNECTING | CONNECTED | READY | PLAYING | DISCONNECTED

text \<open>
  Values that travel in messages: what \<open>json.loads\<close> produces, and \<open>PDatetime\<close> for the
  \<open>datetime\<close> objects that \<open>BaseModel.dict()\<close> leaves in a snapshot. \<open>PInt\<close> stands for
  every JSON number (zero is the only falsy one).
\<close>

datatype pyval =
    PNone
  | PBool bool
  | PInt int
  | PStr string
  | PList "pyval list"
  | PDict "(string \<times> pyval) list"
  | PDatetime int

record Player =
  p_id :: string
  p_name :: string
  p_is_host :: bool
  p_status :: PlayerStatus
  p_socket_id :: "string option"
  p_rom_loaded :: bool
  p_rom_name :: "string option"
  p_save_state :: "pyval option"
  p_joined_at :: int

record Room =
  r_id :: string
  r_host_id :: string
  r_players :: "Player list"
  r_max_players :: int
  r_is_active :: bool
  r_link_cable_connected :: bool
  r_created_at :: int
  r_last_activity :: int

datatype error = ValidationError | AttributeError | TypeError | ValueError

text \<open>Python truthiness of an \<open>Optional[str]\<close>: \<open>None\<close> and the empty string are falsy.\<close>

definition truthy :: "string option \<Rightarrow> bool" where
  "truthy s = (case s of None \<Rightarrow> False | Some v \<Rightarrow> v \<noteq> [])"

text \<open>
  \<open>Player(name=..., is_host=..., rom_name=...)\<close>: the other fields take their defaults.
\<close>

definition Player_new :: "string \<Rightarrow> string \<Rightarrow> bool \<Rightarrow> string option \<Rightarrow> int \<Rightarrow> Player" where
  "Player_new uuid name is_host rom_name now =
     \<lparr>p_id = uuid, p_name = name, p_is_host = is_host, p_status = CONNECTING,
      p_socket_id = None, p_rom_loaded = False, p_rom_name = rom_name,
      p_save_state = None, p_joined_at = now\<rparr>"

text \<open>
  \<open>Room(...)\<close>: the field \<open>host_id: str\<close> has no default, so the pydantic constructor
  raises \<open>ValidationError\<close> when the keyword is absent. \<open>uuid\<close> is the six-character
  code \<open>str(uuid.uuid4()).upper()[:6]\<close>.
\<close>

definition Room_new :: "string \<Rightarrow> string option \<Rightarrow> int \<Rightarrow> error + Room" where
  "Room_new uuid host_id now =
     (case host_id of
        None \<Rightarrow> Inl ValidationError
      | Some h \<Rightarrow>
          Inr \<lparr>r_id = uuid, r_host_id = h, r_players = [], r_max_players = 2,
               r_is_active = True, r_link_cable_connected = False,
               r_created_at = now, r_last_activity = now\<rparr>)"

text \<open>
  \<open>Room.add_player\<close> mutates the room and, for the first member, the player; the model
  returns both together with the boolean result.
\<close>

definition add_player :: "Room \<Rightarrow> Player \<Rightarrow> int \<Rightarrow> Room \<times> Player \<times> bool" where
  "add_player room player now =
     (if int (length (r_players room)) \<ge> r_max_players room then (room, player, False)
      else
        let player1 = (if r_players room = [] then player\<lparr>p_is_host := True\<rparr> else player);
            room1 = (if r_players room = [] then room\<lparr>r_host_id := p_id player\<rparr> else room);
            room2 = room1\<lparr>r_players := r_players room1 @ [player1], r_last_activity := now\<rparr>;
            room3 = (if length (r_players room2) = 2
                     then room2\<lparr>r_link_cable_connected := True\<rparr> else room2)
        in (room3, player1, True))"

text \<open>\<open>Room.remove_player\<close>: the updated room and whether it is now empty.\<close>

definition remove_player :: "Room \<Rightarrow> string \<Rightarrow> int \<Rightarrow> Room \<times> bool" where
  "remove_player room player_id now =
     (let ps = filter (\<lambda>p. p_id p \<noteq> player_id) (r_players room);
          room1 = room\<lparr>r_players := ps, r_last_activity := now\<rparr>;
          room2 = (if length ps < 2 then room1\<lparr>r_link_cable_connected := False\<rparr> else room1);
          room3 = (case ps of
                     [] \<Rightarrow> room2
                   | p # rest \<Rightarrow>
                       if r_host_id room2 = player_id
                       then room2\<lparr>r_players := p\<lparr>p_is_host := True\<rparr> # rest, r_host_id := p_id p\<rparr>
                       else room2)
      in (room3, ps = []))"

definition get_player :: "Room \<Rightarrow> string \<Rightarrow> Player option" where
  "get_player room player_id = find (\<lambda>p. p_id p = player_id) (r_players room)"

text \<open>
  An assignment to a field of the object that \<open>get_player\<close> returned changes the first
  member with that id, in place.
\<close>

fun modify_player :: "string \<Rightarrow> (Player \<Rightarrow> Player) \<Rightarrow> Player list \<Rightarrow> Player list" where
  "modify_player player_id f [] = []"
| "modify_player player_id f (p # ps) =
     (if p_id p = player_id then f p # ps else p # modify_player player_id f ps)"

section \<open>Room registry (backend/room_manager.py)\<close>

record RoomManager =
  rooms :: "(string, Room) dict"
  player_to_room :: "(string, string) dict"
  socket_to_player :: "(string, string) dict"

definition RoomManager_init :: RoomManager where
  "RoomManager_init = \<lparr>rooms = [], player_to_room = [], socket_to_player = []\<rparr>"

text \<open>
  Python strings are Unicode text; the model holds them as lists of bytes (UTF-8). On
  ASCII text \<open>str.upper()\<close> changes a-z to A-Z and \<open>str.lower()\<close> changes A-Z to a-z,
  and neither changes anything else. On other text they follow the Unicode case tables,
  which are no part of the repository: there the model leaves the result unspecified
  (\<open>unicode_case\<close>, for upper and for lower case), so that what is proved below holds
  whatever the tables say, and nothing is asserted about the result for such text.
\<close>

definition is_ascii :: "string \<Rightarrow> bool" where
  "is_ascii s = list_all (\<lambda>c. (of_char c :: nat) < 128) s"

definition upper_char :: "char \<Rightarrow> char" where
  "upper_char c =
     (let n = (of_char c :: nat) in if 97 \<le> n \<and> n \<le> 122 then char_of (n - 32) else c)"

definition lower_char :: "char \<Rightarrow> char" where
  "lower_char c =
     (let n = (of_char c :: nat) in if 65 \<le> n \<and> n \<le> 90 then char_of (n + 32) else c)"

definition unicode_case :: "bool \<Rightarrow> string \<Rightarrow> string" where
  "unicode_case = undefined"

definition upper :: "string \<Rightarrow> string" where
  "upper s = (if is_ascii s then map upper_char s else unicode_case True s)"

definition lower :: "string \<Rightarrow> string" where
  "lower s = (if is_ascii s then map lower_char s else unicode_case False s)"

text \<open>
  \<open>create_room\<close>: \<open>Room()\<close> is called without \<open>host_id\<close>; when the constructor raises,
  nothing has been registered yet.
\<close>

definition create_room ::
  "RoomManager \<Rightarrow> string \<Rightarrow> string option \<Rightarrow> string \<Rightarrow> string \<Rightarrow> int
     \<Rightarrow> error + (RoomManager \<times> Room \<times> Player)" where
  "create_room m host_name rom_name room_uuid player_uuid now =
     (case Room_new room_uuid None now of
        Inl e \<Rightarrow> Inl e
      | Inr room \<Rightarrow>
          let host = Player_new player_uuid host_name True rom_name now;
              host1 = (if truthy rom_name
                       then host\<lparr>p_rom_loaded := True, p_status := READY\<rparr> else host);
              (room1, host2, ok) = add_player room host1 now
          in Inr (m\<lparr>rooms := AList.update (r_id room1) room1 (rooms m),
                    player_to_room := AList.update (p_id host2) (r_id room1) (player_to_room m)\<rparr>,
                  room1, host2))"

definition join_room ::
  "RoomManager \<Rightarrow> string \<Rightarrow> string \<Rightarrow> string option \<Rightarrow> string \<Rightarrow> int
     \<Rightarrow> RoomManager \<times> Room option \<times> Player option \<times> string" where
  "join_room m room_id player_name rom_name player_uuid now =
     (case map_of (rooms m) (upper room_id) of
        None \<Rightarrow> (m, None, None, ''Room not found'')
      | Some room \<Rightarrow>
          if \<not> r_is_active room then (m, None, None, ''Room is no longer active'')
          else if int (length (r_players room)) \<ge> r_max_players room
          then (m, None, None, ''Room is full'')
          else
            let player = Player_new player_uuid player_name False rom_name now;
                player1 = (if truthy rom_name
                           then player\<lparr>p_rom_loaded := True, p_status := READY\<rparr> else player);
                (room1, player2, ok) = add_player room player1 now
            in if ok
               then (m\<lparr>rooms := AList.update (upper room_id) room1 (rooms m),
                        player_to_room :=
                          AList.update (p_id player2) (r_id room1) (player_to_room m)\<rparr>,
                     Some room1, Some player2, ''Successfully joined room'')
               else (m, None, None, ''Failed to join room''))"

definition leave_room :: "RoomManager \<Rightarrow> string \<Rightarrow> int \<Rightarrow> RoomManager \<times> Room option" where
  "leave_room m player_id now =
     (case map_of (player_to_room m) player_id of
        None \<Rightarrow> (m, None)
      | Some room_id \<Rightarrow>
          if room_id = [] then (m, None)
          else
            (case map_of (rooms m) room_id of
               None \<Rightarrow> (m, None)
             | Some room \<Rightarrow>
                 let (room1, is_empty) = remove_player room player_id now;
                     m1 = m\<lparr>rooms := AList.update room_id room1 (rooms m),
                            player_to_room := AList.delete player_id (player_to_room m)\<rparr>;
                     socket_id = map_option fst
                       (find (\<lambda>(sid, pid). pid = player_id) (socket_to_player m1));
                     m2 = (if truthy socket_id
                           then m1\<lparr>socket_to_player :=
                                     AList.delete (the socket_id) (socket_to_player m1)\<rparr>
                           else m1)
                 in if is_empty
                    then (m2\<lparr>rooms := AList.delete room_id (rooms m2)\<rparr>, None)
                    else (m2, Some room1)))"

definition get_room :: "RoomManager \<Rightarrow> string \<Rightarrow> Room option" where
  "get_room m room_id = map_of (rooms m) (upper room_id)"

definition get_player_room :: "RoomManager \<Rightarrow> string \<Rightarrow> Room option" where
  "get_player_room m player_id =
     (let room_id = map_of (player_to_room m) player_id
      in if truthy room_id then map_of (rooms m) (the room_id) else None)"

text \<open>
  The room that \<open>get_player_room\<close> returns is the object stored under the indexed room
  id; a later assignment to it or to one of its members is written back under that key.
\<close>

definition store_player_room :: "RoomManager \<Rightarrow> string \<Rightarrow> Room \<Rightarrow> RoomManager" where
  "store_player_room m player_id room =
     m\<lparr>rooms := AList.update (the (map_of (player_to_room m) player_id)) room (rooms m)\<rparr>"

definition update_player_status ::
  "RoomManager \<Rightarrow> string \<Rightarrow> PlayerStatus \<Rightarrow> int \<Rightarrow> RoomManager \<times> bool" where
  "update_player_status m player_id status now =
     (case get_player_room m player_id of
        None \<Rightarrow> (m, False)
      | Some room \<Rightarrow>
          (case get_player room player_id of
             None \<Rightarrow> (m, False)
           | Some player \<Rightarrow>
               (store_player_room m player_id
                  (room\<lparr>r_players :=
                           modify_player player_id (\<lambda>p. p\<lparr>p_status := status\<rparr>) (r_players room),
                        r_last_activity := now\<rparr>),
                True)))"

definition connect_socket :: "RoomManager \<Rightarrow> string \<Rightarrow> string \<Rightarrow> int \<Rightarrow> RoomManager \<times> bool" where
  "connect_socket m socket_id player_id now =
     (case get_player_room m player_id of
        None \<Rightarrow> (m, False)
      | Some room \<Rightarrow>
          (case get_player room player_id of
             None \<Rightarrow> (m, False)
           | Some player \<Rightarrow>
               let m1 = m\<lparr>socket_to_player :=
                           AList.update socket_id player_id (socket_to_player m)\<rparr>
               in (store_player_room m1 player_id
                     (room\<lparr>r_players :=
                              modify_player player_id
                                (\<lambda>p. p\<lparr>p_socket_id := Some socket_id, p_status := CONNECTED\<rparr>)
                                (r_players room),
                           r_last_activity := now\<rparr>),
                   True)))"

definition disconnect_socket ::
  "RoomManager \<Rightarrow> string \<Rightarrow> RoomManager \<times> (Room \<times> Player) option" where
  "disconnect_socket m socket_id =
     (let player_id = map_of (socket_to_player m) socket_id
      in if \<not> truthy player_id then (m, None)
         else
           (case get_player_room m (the player_id) of
              None \<Rightarrow> (m, None)
            | Some room \<Rightarrow>
                (case get_player room (the player_id) of
                   None \<Rightarrow> (m, None)
                 | Some player \<Rightarrow>
                     let upd = (\<lambda>p. p\<lparr>p_socket_id := None, p_status := DISCONNECTED\<rparr>);
                         room1 = room\<lparr>r_players :=
                                   modify_player (the player_id) upd (r_players room)\<rparr>;
                         m1 = store_player_room m (the player_id) room1
                     in (m1\<lparr>socket_to_player := AList.delete socket_id (socket_to_player m1)\<rparr>,
                         Some (room1, upd player)))))"

definition get_player_by_socket :: "RoomManager \<Rightarrow> string \<Rightarrow> (Room \<times> Player) option" where
  "get_player_by_socket m socket_id =
     (let player_id = map_of (socket_to_player m) socket_id
      in if \<not> truthy player_id then None
         else
           (case get_player_room m (the player_id) of
              None \<Rightarrow> None
            | Some room \<Rightarrow>
                (case get_player room (the player_id) of
                   None \<Rightarrow> None
                 | Some player \<Rightarrow> Some (room, player))))"

text \<open>
  \<open>remove_room\<close>: \<open>leave_room\<close> for every member of the snapshot \<open>room.players[:]\<close>, then
  the room itself when it is still registered.
\<close>

definition remove_room :: "RoomManager \<Rightarrow> string \<Rightarrow> int \<Rightarrow> RoomManager" where
  "remove_room m room_id now =
     (case map_of (rooms m) room_id of
        None \<Rightarrow> m
      | Some room \<Rightarrow>
          let m1 = fold (\<lambda>player s. fst (leave_room s (p_id player) now)) (r_players room) m
          in if map_of (rooms m1) room_id \<noteq> None
             then m1\<lparr>rooms := AList.delete room_id (rooms m1)\<rparr> else m1)"

text \<open>
  One cycle of \<open>_cleanup_inactive_rooms\<close> (the body of the loop up to the sleep):
  \<open>timedelta(hours=1)\<close> is 3600000000 microseconds.
\<close>

definition rooms_to_remove :: "RoomManager \<Rightarrow> int \<Rightarrow> string list" where
  "rooms_to_remove m now =
     (let cutoff_time = now - 3600000000
      in map fst (filter (\<lambda>(room_id, room).
                    r_last_activity room < cutoff_time \<or> \<not> r_is_active room) (rooms m)))"

definition cleanup_inactive_rooms :: "RoomManager \<Rightarrow> int \<Rightarrow> RoomManager" where
  "cleanup_inactive_rooms m now =
     fold (\<lambda>room_id s. remove_room s room_id now) (rooms_to_remove m now) m"

section \<open>Connection table and dispatcher (backend/websocket_handler.py)\<close>

fun py_truthy :: "pyval \<Rightarrow> bool" where
  "py_truthy PNone = False"
| "py_truthy (PBool b) = b"
| "py_truthy (PInt n) = (n \<noteq> 0)"
| "py_truthy (PStr s) = (s \<noteq> [])"
| "py_truthy (PList xs) = (xs \<noteq> [])"
| "py_truthy (PDict kvs) = (kvs \<noteq> [])"
| "py_truthy (PDatetime t) = True"

text \<open>\<open>d.get(k, default)\<close>: only a \<open>dict\<close> has the method.\<close>

definition py_get :: "pyval \<Rightarrow> string \<Rightarrow> pyval \<Rightarrow> error + pyval" where
  "py_get d k dflt =
     (case d of
        PDict kvs \<Rightarrow> Inr (case map_of kvs k of None \<Rightarrow> dflt | Some v \<Rightarrow> v)
      | _ \<Rightarrow> Inl AttributeError)"

text \<open>\<open>json.dumps\<close> raises \<open>TypeError\<close> on a value that holds a \<open>datetime\<close>.\<close>

fun json_serializable :: "pyval \<Rightarrow> bool" where
  "json_serializable (PDatetime t) = False"
| "json_serializable (PList xs) = list_all json_serializable xs"
| "json_serializable (PDict kvs) = list_all json_serializable (map snd kvs)"
| "json_serializable v = True"

definition status_value :: "PlayerStatus \<Rightarrow> string" where
  "status_value st =
     (case st of CONNECTING \<Rightarrow> ''connecting'' | CONNECTED \<Rightarrow> ''connected'' | READY \<Rightarrow> ''ready''
      | PLAYING \<Rightarrow> ''playing'' | DISCONNECTED \<Rightarrow> ''disconnected'')"

text \<open>\<open>hasattr(PlayerStatus, name)\<close> holds for the member names.\<close>

definition status_hasattr :: "string \<Rightarrow> bool" where
  "status_hasattr n =
     (n \<in> set [''CONNECTING'', ''CONNECTED'', ''READY'', ''PLAYING'', ''DISCONNECTED''])"

text \<open>\<open>PlayerStatus(value)\<close>: the member with that value, or \<open>ValueError\<close>.\<close>

definition status_of_value :: "string \<Rightarrow> PlayerStatus option" where
  "status_of_value v =
     find (\<lambda>st. status_value st = v) [CONNECTING, CONNECTED, READY, PLAYING, DISCONNECTED]"

definition opt_str :: "string option \<Rightarrow> pyval" where
  "opt_str s = (case s of None \<Rightarrow> PNone | Some v \<Rightarrow> PStr v)"

text \<open>\<open>BaseModel.dict()\<close>: the timestamps stay \<open>datetime\<close> objects.\<close>

definition player_dict :: "Player \<Rightarrow> pyval" where
  "player_dict p =
     PDict [(''id'', PStr (p_id p)), (''name'', PStr (p_name p)), (''is_host'', PBool (p_is_host p)),
            (''status'', PStr (status_value (p_status p))), (''socket_id'', opt_str (p_socket_id p)),
            (''rom_loaded'', PBool (p_rom_loaded p)), (''rom_name'', opt_str (p_rom_name p)),
            (''save_state'', (case p_save_state p of None \<Rightarrow> PNone | Some v \<Rightarrow> v)),
            (''joined_at'', PDatetime (p_joined_at p))]"

definition room_dict :: "Room \<Rightarrow> pyval" where
  "room_dict r =
     PDict [(''id'', PStr (r_id r)), (''host_id'', PStr (r_host_id r)),
            (''players'', PList (map player_dict (r_players r))),
            (''max_players'', PInt (r_max_players r)), (''is_active'', PBool (r_is_active r)),
            (''link_cable_connected'', PBool (r_link_cable_connected r)),
            (''created_at'', PDatetime (r_created_at r)),
            (''last_activity'', PDatetime (r_last_activity r))]"

definition envelope :: "string \<Rightarrow> (string \<times> pyval) list \<Rightarrow> pyval" where
  "envelope ty d = PDict [(''type'', PStr ty), (''data'', PDict d)]"

definition error_message :: "string \<Rightarrow> pyval" where
  "error_message text = envelope ''error'' [(''message'', PStr text)]"

text \<open>
  The state of the two module globals. \<open>active_connections\<close> maps a socket id to its
  WebSocket, of which the model keeps whether \<open>send_text\<close> succeeds. \<open>sent\<close> lists
  every call of \<open>send_message\<close> in order: the socket id, the message and the value
  returned (whether the text was handed to the transport).
\<close>

record Server =
  room_manager :: RoomManager
  active_connections :: "(string, bool) dict"
  sent :: "(string \<times> pyval \<times> bool) list"

definition disconnect :: "Server \<Rightarrow> string \<Rightarrow> Server" where
  "disconnect s socket_id =
     (if map_of (active_connections s) socket_id \<noteq> None
      then s\<lparr>active_connections := AList.delete socket_id (active_connections s)\<rparr> else s)"

definition send_message :: "Server \<Rightarrow> string \<Rightarrow> pyval \<Rightarrow> Server \<times> bool" where
  "send_message s socket_id message =
     (case map_of (active_connections s) socket_id of
        None \<Rightarrow> (s\<lparr>sent := sent s @ [(socket_id, message, False)]\<rparr>, False)
      | Some can_send \<Rightarrow>
          if json_serializable message \<and> can_send
          then (s\<lparr>sent := sent s @ [(socket_id, message, True)]\<rparr>, True)
          else (disconnect (s\<lparr>sent := sent s @ [(socket_id, message, False)]\<rparr>) socket_id,
                False))"

definition broadcast_to_room :: "Server \<Rightarrow> string \<Rightarrow> pyval \<Rightarrow> string option \<Rightarrow> Server" where
  "broadcast_to_room s room_id message exclude_socket =
     (case get_room (room_manager s) room_id of
        None \<Rightarrow> s
      | Some room \<Rightarrow>
          fold (\<lambda>player s1.
                  if truthy (p_socket_id player) \<and> p_socket_id player \<noteq> exclude_socket
                  then fst (send_message s1 (the (p_socket_id player)) message) else s1)
               (r_players room) s)"

text \<open>
  A handler returns the new state, or the exception it raised together with the state
  at that point.
\<close>

type_synonym outcome = "(error \<times> Server) + Server"

definition handle_join_room :: "Server \<Rightarrow> string \<Rightarrow> pyval \<Rightarrow> int \<Rightarrow> outcome" where
  "handle_join_room s socket_id data now =
     (case py_get data ''player_id'' PNone of
        Inl e \<Rightarrow> Inl (e, s)
      | Inr player_id \<Rightarrow>
          if \<not> py_truthy player_id
          then Inr (fst (send_message s socket_id (error_message ''Player ID required'')))
          else
            (case player_id of
               PStr pid \<Rightarrow>
                 (let (rm, ok) = connect_socket (room_manager s) socket_id pid now
                  in if ok
                     then
                       (let s1 = s\<lparr>room_manager := rm\<rparr>
                        in case get_player_room rm pid of
                             None \<Rightarrow> Inr s1
                           | Some room_data \<Rightarrow>
                               let s2 = broadcast_to_room s1 (r_id room_data)
                                          (envelope ''player_joined''
                                             [(''room'', room_dict room_data),
                                              (''message'', PStr ''A player has connected'')])
                                          (Some socket_id)
                               in Inr (fst (send_message s2 socket_id
                                          (envelope ''room_joined''
                                             [(''room'', room_dict room_data),
                                              (''message'',
                                               PStr ''Successfully connected to room'')]))))
                     else Inr (fst (send_message s socket_id
                                 (error_message ''Failed to join room''))))
             | PList xs \<Rightarrow> Inl (TypeError, s)
             | PDict kvs \<Rightarrow> Inl (TypeError, s)
             | _ \<Rightarrow> Inr (fst (send_message s socket_id (error_message ''Failed to join room'')))))"

definition handle_leave_room :: "Server \<Rightarrow> string \<Rightarrow> outcome" where
  "handle_leave_room s socket_id =
     (let (rm, result) = disconnect_socket (room_manager s) socket_id;
          s1 = s\<lparr>room_manager := rm\<rparr>
      in case result of
           None \<Rightarrow> Inr s1
         | Some (room, player) \<Rightarrow>
             Inr (broadcast_to_room s1 (r_id room)
                    (envelope ''player_left''
                       [(''room'', room_dict room), (''player_name'', PStr (p_name player)),
                        (''message'', PStr (p_name player @ '' has left the room''))])
                    (Some socket_id)))"

definition handle_link_cable_data :: "Server \<Rightarrow> string \<Rightarrow> pyval \<Rightarrow> outcome" where
  "handle_link_cable_data s socket_id data =
     (case get_player_by_socket (room_manager s) socket_id of
        None \<Rightarrow> Inr s
      | Some (room, sender) \<Rightarrow>
          if \<not> r_link_cable_connected room
          then Inr (fst (send_message s socket_id (error_message ''Link cable not connected'')))
          else
            (case find (\<lambda>player. p_id player \<noteq> p_id sender \<and> truthy (p_socket_id player))
                    (r_players room) of
               None \<Rightarrow>
                 Inr (fst (send_message s socket_id (error_message ''No other player connected'')))
             | Some other_player \<Rightarrow>
                 (case py_get data ''action'' PNone of
                    Inl e \<Rightarrow> Inl (e, s)
                  | Inr action \<Rightarrow>
                      (case py_get data ''payload'' (PDict []) of
                         Inl e \<Rightarrow> Inl (e, s)
                       | Inr payload \<Rightarrow>
                           (case py_get data ''timestamp'' PNone of
                              Inl e \<Rightarrow> Inl (e, s)
                            | Inr timestamp \<Rightarrow>
                                Inr (fst (send_message s (the (p_socket_id other_player))
                                       (envelope ''link_cable_data''
                                          [(''action'', action), (''payload'', payload),
                                           (''from_player'', PStr (p_name sender)),
                                           (''timestamp'', timestamp)]))))))))"

definition handle_player_status :: "Server \<Rightarrow> string \<Rightarrow> pyval \<Rightarrow> int \<Rightarrow> outcome" where
  "handle_player_status s socket_id data now =
     (case get_player_by_socket (room_manager s) socket_id of
        None \<Rightarrow> Inr s
      | Some (room, player) \<Rightarrow>
          (case py_get data ''status'' PNone of
             Inl e \<Rightarrow> Inl (e, s)
           | Inr status \<Rightarrow>
               if \<not> py_truthy status then Inr s
               else
                 (case status of
                    PStr st \<Rightarrow>
                      if status_hasattr (upper st)
                      then
                        (case status_of_value (lower st) of
                           None \<Rightarrow> Inl (ValueError, s)
                         | Some new_status \<Rightarrow>
                             (let (rm, ok) = update_player_status (room_manager s) (p_id player)
                                               new_status now;
                                  s1 = s\<lparr>room_manager := rm\<rparr>
                              in if ok
                                 then Inr (broadcast_to_room s1 (r_id room)
                                        (envelope ''player_status_updated''
                                           [(''player_id'', PStr (p_id player)),
                                            (''player_name'', PStr (p_name player)),
                                            (''status'', status),
                                            (''room'',
                                             room_dict (the (get_player_room rm (p_id player))))])
                                        None)
                                 else Inr s1))
                      else Inr s
                  | _ \<Rightarrow> Inl (AttributeError, s))))"

definition save_state_response :: "(string \<times> pyval) list \<Rightarrow> pyval" where
  "save_state_response d = envelope ''save_state_response'' d"

definition handle_save_state :: "Server \<Rightarrow> string \<Rightarrow> pyval \<Rightarrow> outcome" where
  "handle_save_state s socket_id data =
     (case get_player_by_socket (room_manager s) socket_id of
        None \<Rightarrow> Inr s
      | Some (room, player) \<Rightarrow>
          (case py_get data ''action'' PNone of
             Inl e \<Rightarrow> Inl (e, s)
           | Inr action \<Rightarrow>
               if action = PStr ''save''
               then
                 (case py_get data ''save_data'' PNone of
                    Inl e \<Rightarrow> Inl (e, s)
                  | Inr save_data \<Rightarrow>
                      (case py_get data ''screenshot'' PNone of
                         Inl e \<Rightarrow> Inl (e, s)
                       | Inr screenshot \<Rightarrow>
                           (case py_get data ''timestamp'' PNone of
                              Inl e \<Rightarrow> Inl (e, s)
                            | Inr timestamp \<Rightarrow>
                                (let saved = PDict [(''data'', save_data),
                                                    (''screenshot'', screenshot),
                                                    (''timestamp'', timestamp)];
                                     room1 = room\<lparr>r_players :=
                                               modify_player (p_id player)
                                                 (\<lambda>p. p\<lparr>p_save_state := Some saved\<rparr>)
                                                 (r_players room)\<rparr>;
                                     s1 = s\<lparr>room_manager :=
                                            store_player_room (room_manager s) (p_id player)
                                              room1\<rparr>
                                 in Inr (fst (send_message s1 socket_id
                                           (save_state_response
                                              [(''action'', PStr ''save''),
                                               (''success'', PBool True),
                                               (''message'',
                                                PStr ''Game state saved successfully'')])))))))
               else if action = PStr ''load''
               then
                 (case p_save_state player of
                    None \<Rightarrow>
                      Inr (fst (send_message s socket_id
                             (save_state_response
                                [(''action'', PStr ''load''), (''success'', PBool False),
                                 (''message'', PStr ''No save state found'')])))
                  | Some saved \<Rightarrow>
                      if \<not> py_truthy saved
                      then Inr (fst (send_message s socket_id
                                  (save_state_response
                                     [(''action'', PStr ''load''), (''success'', PBool False),
                                      (''message'', PStr ''No save state found'')])))
                      else
                        (case py_get saved ''data'' PNone of
                           Inl e \<Rightarrow> Inl (e, s)
                         | Inr save_data \<Rightarrow>
                             Inr (fst (send_message s socket_id
                                    (save_state_response
                                       [(''action'', PStr ''load''), (''success'', PBool True),
                                        (''save_data'', save_data),
                                        (''message'', PStr ''Game state loaded successfully'')])))))
               else Inr s))"

text \<open>The body of the \<open>try\<close> block of \<open>handle_message\<close>.\<close>

definition dispatch :: "Server \<Rightarrow> string \<Rightarrow> pyval \<Rightarrow> int \<Rightarrow> outcome" where
  "dispatch s socket_id message_data now =
     (case py_get message_data ''type'' PNone of
        Inl e \<Rightarrow> Inl (e, s)
      | Inr message_type \<Rightarrow>
          (case py_get message_data ''data'' (PDict []) of
             Inl e \<Rightarrow> Inl (e, s)
           | Inr data \<Rightarrow>
               if message_type = PStr ''join_room'' then handle_join_room s socket_id data now
               else if message_type = PStr ''leave_room'' then handle_leave_room s socket_id
               else if message_type = PStr ''link_cable_data''
               then handle_link_cable_data s socket_id data
               else if message_type = PStr ''player_status''
               then handle_player_status s socket_id data now
               else if message_type = PStr ''save_state'' then handle_save_state s socket_id data
               else if message_type = PStr ''ping''
               then Inr (fst (send_message s socket_id (envelope ''pong'' [])))
               else Inr s))"

text \<open>\<open>handle_message\<close>: the \<open>except Exception\<close> clause answers the sender.\<close>

definition handle_message :: "Server \<Rightarrow> string \<Rightarrow> pyval \<Rightarrow> int \<Rightarrow> Server" where
  "handle_message s socket_id message_data now =
     (case dispatch s socket_id message_data now of
        Inr s1 \<Rightarrow> s1
      | Inl (e, s1) \<Rightarrow> fst (send_message s1 socket_id (error_message ''Failed to process message'')))"

section \<open>Sequences of joins and index consistency\<close>

text \<open>
  A sequence of \<open>join_room\<close> calls: each attempt gives the room code as typed, the player
  name, the optional image id, the fresh player id and the clock reading.
\<close>

type_synonym attempt = "string \<times> string \<times> string option \<times> string \<times> int"

fun join_all :: "RoomManager \<Rightarrow> attempt list \<Rightarrow> RoomManager" where
  "join_all m [] = m"
| "join_all m ((room_id, player_name, rom_name, player_uuid, now) # rest) =
     join_all (fst (join_room m room_id player_name rom_name player_uuid now)) rest"

text \<open>
  The consistency of the two indexes with room membership: every connection entry names
  a member of a registered room whose handle is that connection, and every player entry
  names a registered room that holds the player.
\<close>

definition socket_entry_ok :: "RoomManager \<Rightarrow> string \<times> string \<Rightarrow> bool" where
  "socket_entry_ok m e =
     list_ex (\<lambda>kr. list_ex (\<lambda>p. p_id p = snd e \<and> p_socket_id p = Some (fst e))
                        (r_players (snd kr))) (rooms m)"

definition player_entry_ok :: "RoomManager \<Rightarrow> string \<times> string \<Rightarrow> bool" where
  "player_entry_ok m e =
     (case map_of (rooms m) (snd e) of
        None \<Rightarrow> False
      | Some room \<Rightarrow> list_ex (\<lambda>p. p_id p = fst e) (r_players room))"

definition index_consistent :: "RoomManager \<Rightarrow> bool" where
  "index_consistent m =
     (list_all (socket_entry_ok m) (socket_to_player m) \<and>
      list_all (player_entry_ok m) (player_to_room m))"

text \<open>
  The representation invariant of the registry used for the sweeper: the dictionaries
  have no repeated key, every member of a registered room is indexed under the key of
  that room, member ids are distinct within a room, room keys and connection ids are
  non-empty, and no player has two connection entries.
\<close>

definition sockets_ok :: "(string \<times> string) list \<Rightarrow> bool" where
  "sockets_ok xs = (distinct (map fst xs) \<and> distinct (map snd xs) \<and> [] \<notin> fst ` set xs)"

definition registry_inv :: "RoomManager \<Rightarrow> bool" where
  "registry_inv m =
     (distinct (map fst (rooms m)) \<and>
      (\<forall>(k, room) \<in> set (rooms m).
          k \<noteq> [] \<and> distinct (map p_id (r_players room)) \<and>
          (\<forall>p \<in> set (r_players room). map_of (player_to_room m) (p_id p) = Some k)) \<and>
      sockets_ok (socket_to_player m))"

text \<open>
  The effect of one \<open>send_message\<close> call, written out: one more entry in \<open>sent\<close>, delivered
  when the connection is registered, its transport works and the message serialises;
  otherwise the connection is unregistered (when it was registered at all). The registry
  is not touched.
\<close>

definition unicast :: "Server \<Rightarrow> string \<Rightarrow> pyval \<Rightarrow> Server" where
  "unicast s socket_id message =
     (let delivered = (map_of (active_connections s) socket_id = Some True \<and>
                       json_serializable message)
      in s\<lparr>sent := sent s @ [(socket_id, message, delivered)],
           active_connections :=
             (if delivered then active_connections s
              else AList.delete socket_id (active_connections s))\<rparr>)"

text \<open>
  A well-formed room, as \<open>create_room\<close> is meant to set it up and as every operation
  keeps it: capacity 2, active, one or two members, the link flag equal to "two
  members", the first member the host and the only one flagged as host.
\<close>

definition room_wf :: "Room \<Rightarrow> bool" where
  "room_wf r =
     (r_max_players r = 2 \<and> r_is_active r \<and>
      r_link_cable_connected r = (length (r_players r) = 2) \<and>
      r_players r \<noteq> [] \<and> length (r_players r) \<le> 2 \<and>
      p_is_host (hd (r_players r)) \<and> r_host_id r = p_id (hd (r_players r)) \<and>
      list_all (\<lambda>p. \<not> p_is_host p) (tl (r_players r)))"

definition rooms_wf :: "RoomManager \<Rightarrow> bool" where
  "rooms_wf m = list_all (\<lambda>kr. room_wf (snd kr)) (rooms m)"

section \<open>Example registry\<close>

text \<open>
  The registry that the specification describes after host Ash has created room ABC123,
  and after Misty has joined it. They are written out, since \<open>create_room\<close> itself
  raises (see C1 below).
\<close>

definition ash :: Player where
  "ash = \<lparr>p_id = ''p-ash'', p_name = ''Ash'', p_is_host = True, p_status = CONNECTING,
          p_socket_id = None, p_rom_loaded = False, p_rom_name = None,
          p_save_state = None, p_joined_at = 100\<rparr>"

definition misty :: Player where
  "misty = \<lparr>p_id = ''p-misty'', p_name = ''Misty'', p_is_host = False, p_status = CONNECTING,
            p_socket_id = None, p_rom_loaded = False, p_rom_name = None,
            p_save_state = None, p_joined_at = 200\<rparr>"

definition room_ash :: Room where
  "room_ash = \<lparr>r_id = ''ABC123'', r_host_id = ''p-ash'', r_players = [ash], r_max_players = 2,
               r_is_active = True, r_link_cable_connected = False,
               r_created_at = 100, r_last_activity = 100\<rparr>"

definition room_both :: Room where
  "room_both = \<lparr>r_id = ''ABC123'', r_host_id = ''p-ash'', r_players = [ash, misty],
                r_max_players = 2, r_is_active = True, r_link_cable_connected = True,
                r_created_at = 100, r_last_activity = 200\<rparr>"

definition registry_ash :: RoomManager where
  "registry_ash = \<lparr>rooms = [(''ABC123'', room_ash)],
                   player_to_room = [(''p-ash'', ''ABC123'')], socket_to_player = []\<rparr>"

definition registry_both :: RoomManager where
  "registry_both = \<lparr>rooms = [(''ABC123'', room_both)],
                    player_to_room = [(''p-ash'', ''ABC123''), (''p-misty'', ''ABC123'')],
                    socket_to_player = []\<rparr>"

text \<open>Ash bound to connection \<open>s1\<close> and then again to \<open>s2\<close>.\<close>

definition registry_rebound :: RoomManager where
  "registry_rebound =
     fst (connect_socket (fst (connect_socket registry_ash ''s1'' ''p-ash'' 300))
            ''s2'' ''p-ash'' 400)"

text \<open>Ash bound to \<open>s1\<close> and Misty to \<open>s2\<close>, both connections registered and working.\<close>

definition registry_bound :: RoomManager where
  "registry_bound =
     fst (connect_socket (fst (connect_socket registry_both ''s1'' ''p-ash'' 300))
            ''s2'' ''p-misty'' 400)"

definition server_bound :: Server where
  "server_bound = \<lparr>room_manager = registry_bound,
                   active_connections = [(''s1'', True), (''s2'', True)], sent = []\<rparr>"

section \<open>Well-formed rooms\<close>

text \<open>
  Every operation of the registry keeps every registered room well formed. The
  conditions on a room that the theorems below assume (capacity 2, active, at most two
  members, the link flag, a single host) are consequences of well-formedness.
\<close>

lemma list_all_update:
  "list_all P xs \<Longrightarrow> P (k, v) \<Longrightarrow> list_all P (AList.update k v xs)"
  by (induction xs) auto

lemma list_all_delete: "list_all P xs \<Longrightarrow> list_all P (AList.delete k xs)"
  by (induction xs) (auto simp: AList.delete_eq)

lemma rooms_wf_lookup: "rooms_wf m \<Longrightarrow> map_of (rooms m) k = Some r \<Longrightarrow> room_wf r"
  by (force simp: rooms_wf_def list_all_iff dest: map_of_SomeD)

lemma rooms_wf_store:
  "rooms_wf m \<Longrightarrow> room_wf r \<Longrightarrow> rooms_wf (m\<lparr>rooms := AList.update k r (rooms m)\<rparr>)"
  by (simp add: rooms_wf_def list_all_update)

lemma add_player_wf:
  assumes "room_wf room" and "\<not> p_is_host player"
      and "add_player room player now = (room1, player1, True)"
  shows "room_wf room1"
proof -
  from assms(1) obtain h rest where ps: "r_players room = h # rest"
    by (cases "r_players room") (auto simp: room_wf_def)
  with assms show ?thesis
    by (cases rest) (auto simp: room_wf_def add_player_def Let_def split: if_splits)
qed

lemma remove_player_wf:
  assumes "room_wf room" and "remove_player room player_id now = (room1, False)"
  shows "room_wf room1"
proof -
  from assms(1) obtain h rest where ps: "r_players room = h # rest"
    by (cases "r_players room") (auto simp: room_wf_def)
  from assms(1) ps have "rest = [] \<or> (\<exists>q. rest = [q])"
    by (cases rest) (auto simp: room_wf_def)
  with assms ps show ?thesis
    by (auto simp: room_wf_def remove_player_def Let_def split: if_splits)
qed

lemma length_modify_player: "length (modify_player player_id f ps) = length ps"
  by (induction ps) auto

lemma list_all_modify_player:
  "list_all P ps \<Longrightarrow> (\<And>p. P p \<Longrightarrow> P (f p)) \<Longrightarrow> list_all P (modify_player player_id f ps)"
  by (induction ps) auto

lemma modify_player_wf:
  assumes "room_wf room" and "\<And>p. p_id (f p) = p_id p" and "\<And>p. p_is_host (f p) = p_is_host p"
  shows "room_wf (room\<lparr>r_players := modify_player player_id f (r_players room)\<rparr>)"
proof -
  from assms(1) obtain h rest where ps: "r_players room = h # rest"
    by (cases "r_players room") (auto simp: room_wf_def)
  have "list_all (\<lambda>p. \<not> p_is_host p) rest \<Longrightarrow>
        list_all (\<lambda>p. \<not> p_is_host p) (modify_player player_id f rest)"
    by (rule list_all_modify_player) (simp_all add: assms(3))
  with assms ps show ?thesis
    by (auto simp: room_wf_def length_modify_player)
qed

lemma room_wf_last_activity: "room_wf room \<Longrightarrow> room_wf (room\<lparr>r_last_activity := t\<rparr>)"
  by (simp add: room_wf_def)

lemma join_room_wf:
  assumes "rooms_wf m"
  shows "rooms_wf (fst (join_room m room_id player_name rom_name player_uuid now))"
proof (cases "map_of (rooms m) (upper room_id)")
  case None
  then show ?thesis using assms by (simp add: join_room_def)
next
  case (Some room)
  then have wf: "room_wf room" using assms by (auto dest: rooms_wf_lookup)
  let ?player = "if truthy rom_name
        then (Player_new player_uuid player_name False rom_name now)
               \<lparr>p_rom_loaded := True, p_status := READY\<rparr>
        else Player_new player_uuid player_name False rom_name now"
  have nh: "\<not> p_is_host ?player" by (simp add: Player_new_def)
  obtain room1 player1 ok where ap: "add_player room ?player now = (room1, player1, ok)"
    by (cases "add_player room ?player now")
  show ?thesis
  proof (cases ok)
    case True
    with add_player_wf[OF wf nh] ap have "room_wf room1" by simp
    with assms Some ap True show ?thesis
      by (auto simp: join_room_def Let_def rooms_wf_def list_all_update)
  next
    case False
    with assms Some ap show ?thesis by (auto simp: join_room_def Let_def)
  qed
qed

lemma leave_room_wf:
  assumes "rooms_wf m"
  shows "rooms_wf (fst (leave_room m player_id now))"
proof (cases "map_of (player_to_room m) player_id")
  case None
  then show ?thesis using assms by (simp add: leave_room_def)
next
  case (Some room_id)
  show ?thesis
  proof (cases "map_of (rooms m) room_id")
    case None
    with Some assms show ?thesis by (simp add: leave_room_def)
  next
    case (Some room)
    then have wf: "room_wf room" using assms by (auto dest: rooms_wf_lookup)
    obtain room1 e where rp: "remove_player room player_id now = (room1, e)"
      by (cases "remove_player room player_id now")
    show ?thesis
    proof (cases e)
      case True
      with assms Some rp \<open>map_of (player_to_room m) player_id = Some room_id\<close> show ?thesis
        by (auto simp: leave_room_def Let_def rooms_wf_def delete_update_same list_all_delete)
    next
      case False
      with remove_player_wf[OF wf] rp have "room_wf room1" by simp
      with assms Some rp False \<open>map_of (player_to_room m) player_id = Some room_id\<close>
      show ?thesis
        by (auto simp: leave_room_def Let_def rooms_wf_def list_all_update)
    qed
  qed
qed

lemma connect_socket_wf:
  assumes "rooms_wf m"
  shows "rooms_wf (fst (connect_socket m socket_id player_id now))"
proof (cases "get_player_room m player_id")
  case None
  then show ?thesis using assms by (simp add: connect_socket_def)
next
  case (Some room)
  then have "\<exists>k. map_of (rooms m) k = Some room"
    by (auto simp: get_player_room_def Let_def split: if_splits)
  then have wf: "room_wf room" using assms by (auto dest: rooms_wf_lookup)
  have "room_wf (room\<lparr>r_players := modify_player player_id
           (\<lambda>p. p\<lparr>p_socket_id := Some socket_id, p_status := CONNECTED\<rparr>) (r_players room),
           r_last_activity := now\<rparr>)"
    using modify_player_wf[OF wf, of "\<lambda>p. p\<lparr>p_socket_id := Some socket_id, p_status := CONNECTED\<rparr>"
             player_id]
    by (simp add: room_wf_def)
  with assms Some show ?thesis
    by (auto simp: connect_socket_def store_player_room_def rooms_wf_def list_all_update
             split: option.splits)
qed

lemma disconnect_socket_wf:
  assumes "rooms_wf m"
  shows "rooms_wf (fst (disconnect_socket m socket_id))"
proof (cases "truthy (map_of (socket_to_player m) socket_id)")
  case False
  then show ?thesis using assms by (simp add: disconnect_socket_def)
next
  case True
  let ?pid = "the (map_of (socket_to_player m) socket_id)"
  show ?thesis
  proof (cases "get_player_room m ?pid")
    case None
    with True show ?thesis using assms by (simp add: disconnect_socket_def)
  next
    case (Some room)
    then have "\<exists>k. map_of (rooms m) k = Some room"
      by (auto simp: get_player_room_def Let_def split: if_splits)
    then have wf: "room_wf room" using assms by (auto dest: rooms_wf_lookup)
    have "room_wf (room\<lparr>r_players := modify_player ?pid
             (\<lambda>p. p\<lparr>p_socket_id := None, p_status := DISCONNECTED\<rparr>) (r_players room)\<rparr>)"
      using modify_player_wf[OF wf, of "\<lambda>p. p\<lparr>p_socket_id := None, p_status := DISCONNECTED\<rparr>" ?pid]
      by simp
    with assms Some True show ?thesis
      by (auto simp: disconnect_socket_def store_player_room_def rooms_wf_def list_all_update
               Let_def split: option.splits)
  qed
qed

lemma update_player_status_wf:
  assumes "rooms_wf m"
  shows "rooms_wf (fst (update_player_status m player_id status now))"
proof (cases "get_player_room m player_id")
  case None
  then show ?thesis using assms by (simp add: update_player_status_def)
next
  case (Some room)
  then have "\<exists>k. map_of (rooms m) k = Some room"
    by (auto simp: get_player_room_def Let_def split: if_splits)
  then have wf: "room_wf room" using assms by (auto dest: rooms_wf_lookup)
  have "room_wf (room\<lparr>r_players := modify_player player_id
           (\<lambda>p. p\<lparr>p_status := status\<rparr>) (r_players room), r_last_activity := now\<rparr>)"
    using modify_player_wf[OF wf, of "\<lambda>p. p\<lparr>p_status := status\<rparr>" player_id]
    by (simp add: room_wf_def)
  with assms Some show ?thesis
    by (auto simp: update_player_status_def store_player_room_def rooms_wf_def list_all_update
             split: option.splits)
qed

lemma leave_all_wf:
  "rooms_wf m \<Longrightarrow> rooms_wf (fold (\<lambda>player s. fst (leave_room s (p_id player) now)) ps m)"
  by (induction ps arbitrary: m) (auto intro: leave_room_wf)

lemma remove_room_wf:
  "rooms_wf m \<Longrightarrow> rooms_wf (remove_room m room_id now)"
  using leave_all_wf[of m now]
  by (auto simp: remove_room_def Let_def rooms_wf_def list_all_delete split: option.splits)

lemma cleanup_wf_aux:
  "rooms_wf m \<Longrightarrow> rooms_wf (fold (\<lambda>room_id s. remove_room s room_id now) ks m)"
  by (induction ks arbitrary: m) (auto intro: remove_room_wf)

lemma cleanup_inactive_rooms_wf:
  "rooms_wf m \<Longrightarrow> rooms_wf (cleanup_inactive_rooms m now)"
  by (simp add: cleanup_inactive_rooms_def cleanup_wf_aux)

lemma room_wf_only_host:
  assumes "room_wf room" and "distinct (map p_id (r_players room))"
  shows "\<forall>p \<in> set (r_players room). p_is_host p \<longrightarrow> p_id p = r_host_id room"
proof -
  from assms(1) obtain h rest where ps: "r_players room = h # rest"
    by (cases "r_players room") (auto simp: room_wf_def)
  with assms(1) show ?thesis by (auto simp: room_wf_def list_all_iff)
qed

text \<open>
  Members stay listed in joining order: a join appends a player stamped with the
  current clock reading, so the join timestamps stay non-decreasing as long as the clock
  does not run backwards; removing a member and updating one keep the order.
\<close>

lemma add_player_in_order:
  assumes "sorted (map p_joined_at (r_players room))"
      and "\<forall>q \<in> set (r_players room). p_joined_at q \<le> p_joined_at player"
      and "add_player room player now = (room1, player1, True)"
  shows "sorted (map p_joined_at (r_players room1))"
  using assms
  by (auto simp: add_player_def Let_def sorted_append split: if_splits)

lemma remove_player_in_order:
  assumes "sorted (map p_joined_at (r_players room))"
  shows "sorted (map p_joined_at (r_players (fst (remove_player room player_id now))))"
proof -
  have "sorted (map p_joined_at (filter (\<lambda>p. p_id p \<noteq> player_id) (r_players room)))"
    using assms by (rule sorted_filter)
  then show ?thesis
    by (auto simp: remove_player_def Let_def split: list.splits)
qed

lemma modify_player_in_order:
  "(\<And>p. p_joined_at (f p) = p_joined_at p) \<Longrightarrow>
   map p_joined_at (modify_player player_id f ps) = map p_joined_at ps"
  by (induction ps) auto

section \<open>Creating a room\<close>

text \<open>
  C1. \<open>create_room\<close> is specified to succeed always. It constructs \<open>Room()\<close> without the
  required field \<open>host_id\<close>, so for every host name, image id, generated ids and clock
  reading it raises \<open>ValidationError\<close> before anything is registered.
\<close>

theorem create_room_raises:
  "create_room m host_name rom_name room_uuid player_uuid now = Inl ValidationError"
  by (simp add: create_room_def Room_new_def)

section \<open>Joining a room\<close>

text \<open>
  C10. A successful \<open>join_room\<close> into a room that already has a member appends the new
  player last, never as host. The new player starts \<open>READY\<close> with the image marked loaded
  exactly when the image id is truthy (present and not the empty string); otherwise it
  starts \<open>CONNECTING\<close> with no image loaded. The image id is stored as given.
\<close>

theorem join_room_new_player:
  assumes "map_of (rooms m) (upper room_id) = Some room"
      and "r_players room \<noteq> []"
      and "join_room m room_id player_name rom_name player_uuid now =
             (m1, Some joined_room, Some joined, msg)"
  shows "r_players joined_room = r_players room @ [joined] \<and>
         \<not> p_is_host joined \<and>
         p_status joined = (if truthy rom_name then READY else CONNECTING) \<and>
         p_rom_loaded joined = truthy rom_name \<and>
         p_rom_name joined = rom_name"
  using assms
  by (auto simp: join_room_def add_player_def Player_new_def Let_def split: if_splits)

theorem join_room_new_player_witness:
  "p_status (the (fst (snd (snd (join_room registry_ash ''abc123'' ''Misty'' (Some ''red.gb'')
                                   ''p-misty'' 200))))) = READY \<and>
   p_rom_loaded (the (fst (snd (snd (join_room registry_ash ''abc123'' ''Misty''
                                       (Some ''red.gb'') ''p-misty'' 200))))) \<and>
   \<not> p_is_host (the (fst (snd (snd (join_room registry_ash ''abc123'' ''Misty''
                                        (Some ''red.gb'') ''p-misty'' 200)))))"
proof -
  let ?res = "join_room registry_ash ''abc123'' ''Misty'' (Some ''red.gb'') ''p-misty'' 200"
  have h1: "map_of (rooms registry_ash) (upper ''abc123'') = Some room_ash" by code_simp
  have h2: "r_players room_ash \<noteq> []" by code_simp
  have h3: "?res = (fst ?res, Some (the (fst (snd ?res))), Some (the (fst (snd (snd ?res)))),
                    snd (snd (snd ?res)))"
    by code_simp
  have t: "truthy (Some ''red.gb'')" by code_simp
  from join_room_new_player[OF h1 h2 h3] t show ?thesis by simp
qed

text \<open>
  The claim as stated fails for an image id that is supplied but empty: the joiner is
  left \<open>CONNECTING\<close> with no image loaded.
\<close>

theorem join_room_empty_image_counterexample:
  "map_option p_status
     (fst (snd (snd (join_room registry_ash ''abc123'' ''Misty'' (Some []) ''p-misty'' 200)))) =
     Some CONNECTING \<and>
   map_option p_rom_loaded
     (fst (snd (snd (join_room registry_ash ''abc123'' ''Misty'' (Some []) ''p-misty'' 200)))) =
     Some False"
  by code_simp

lemma join_room_full:
  assumes "map_of (rooms m) (upper room_id) = Some room" and "r_is_active room"
      and "r_max_players room \<le> int (length (r_players room))"
  shows "join_room m room_id player_name rom_name player_uuid now =
           (m, None, None, ''Room is full'')"
  using assms by (simp add: join_room_def)

lemma join_room_step:
  assumes "map_of (rooms m) (upper room_id) = Some room" and "r_is_active room"
      and "r_max_players room = 2" and "length (r_players room) \<le> 2"
  shows "\<exists>room1. map_of (rooms (fst (join_room m room_id player_name rom_name player_uuid now)))
                  (upper room_id) = Some room1 \<and>
                r_is_active room1 \<and> r_max_players room1 = 2 \<and>
                length (r_players room1) = min 2 (Suc (length (r_players room)))"
  using assms
  by (auto simp: join_room_def add_player_def Let_def update_conv')

lemma join_all_capacity:
  assumes "map_of (rooms m) k = Some room" and "r_is_active room"
      and "r_max_players room = 2" and "length (r_players room) \<le> 2"
      and "\<forall>a \<in> set attempts. upper (fst a) = k"
  shows "\<exists>room1. map_of (rooms (join_all m attempts)) k = Some room1 \<and>
                r_is_active room1 \<and> r_max_players room1 = 2 \<and>
                length (r_players room1) = min 2 (length (r_players room) + length attempts)"
  using assms
proof (induction attempts arbitrary: m room)
  case Nil
  then show ?case by simp
next
  case (Cons a attempts)
  obtain room_id player_name rom_name player_uuid now
    where a: "a = (room_id, player_name, rom_name, player_uuid, now)"
    by (cases a) auto
  from Cons.prems a have k: "upper room_id = k" by simp
  let ?m1 = "fst (join_room m room_id player_name rom_name player_uuid now)"
  from join_room_step[of m room_id room player_name rom_name player_uuid now] Cons.prems k
  obtain room1 where r1: "map_of (rooms ?m1) k = Some room1" "r_is_active room1"
      "r_max_players room1 = 2"
      "length (r_players room1) = min 2 (Suc (length (r_players room)))"
    by auto
  have "length (r_players room1) \<le> 2" using r1 by simp
  from Cons.IH[OF r1(1) r1(2) r1(3) this] Cons.prems(5)
  obtain room2 where "map_of (rooms (join_all ?m1 attempts)) k = Some room2"
     "r_is_active room2" "r_max_players room2 = 2"
     "length (r_players room2) = min 2 (length (r_players room1) + length attempts)"
    by auto
  then show ?case using a r1(4) by (auto simp: min_def)
qed

text \<open>
  C3. Take a registered, active room of capacity 2 holding at most 2 members, and any
  sequence of \<open>join_room\<close> attempts whose codes upper-case to the key of the room. After
  the sequence the room is still registered and holds at most 2 members. Once the
  members present at the start plus the earlier attempts number at least 2 (so at the
  latest on the third attempt), a further attempt returns \<open>Room is full\<close> and leaves the
  whole registry, membership included, unchanged.
\<close>

theorem join_room_capacity:
  assumes "map_of (rooms m) k = Some room" and "r_is_active room"
      and "r_max_players room = 2" and "length (r_players room) \<le> 2"
      and "\<forall>a \<in> set attempts. upper (fst a) = k" and "upper room_id = k"
  shows "\<exists>room1. map_of (rooms (join_all m attempts)) k = Some room1 \<and>
           length (r_players room1) \<le> 2 \<and>
           (2 \<le> length (r_players room) + length attempts \<longrightarrow>
              join_room (join_all m attempts) room_id player_name rom_name player_uuid now =
                (join_all m attempts, None, None, ''Room is full''))"
proof -
  from join_all_capacity[OF assms(1-5)]
  obtain room1 where r1: "map_of (rooms (join_all m attempts)) k = Some room1"
     "r_is_active room1" "r_max_players room1 = 2"
     "length (r_players room1) = min 2 (length (r_players room) + length attempts)"
    by auto
  have "2 \<le> length (r_players room) + length attempts \<longrightarrow>
          join_room (join_all m attempts) room_id player_name rom_name player_uuid now =
            (join_all m attempts, None, None, ''Room is full'')"
  proof
    assume "2 \<le> length (r_players room) + length attempts"
    then have "r_max_players room1 \<le> int (length (r_players room1))" using r1 by simp
    with r1 assms(6)
    show "join_room (join_all m attempts) room_id player_name rom_name player_uuid now =
            (join_all m attempts, None, None, ''Room is full'')"
      by (intro join_room_full[where room=room1]) auto
  qed
  with r1 show ?thesis by auto
qed

theorem join_room_capacity_witness:
  "\<exists>room1. map_of (rooms (join_all registry_ash
                [(''abc123'', ''Misty'', None, ''p-misty'', 200),
                 (''ABC123'', ''Brock'', None, ''p-brock'', 300)])) ''ABC123'' = Some room1 \<and>
           length (r_players room1) \<le> 2 \<and>
           join_room (join_all registry_ash
                [(''abc123'', ''Misty'', None, ''p-misty'', 200),
                 (''ABC123'', ''Brock'', None, ''p-brock'', 300)])
              ''Abc123'' ''Gary'' None ''p-gary'' 400 =
             (join_all registry_ash
                [(''abc123'', ''Misty'', None, ''p-misty'', 200),
                 (''ABC123'', ''Brock'', None, ''p-brock'', 300)],
              None, None, ''Room is full'')"
proof -
  let ?attempts = "[(''abc123'', ''Misty'', None, ''p-misty'', 200),
                    (''ABC123'', ''Brock'', None, ''p-brock'', 300)] :: attempt list"
  have h1: "map_of (rooms registry_ash) ''ABC123'' = Some room_ash" by code_simp
  have h2: "r_is_active room_ash" by code_simp
  have h3: "r_max_players room_ash = 2" by code_simp
  have h4: "length (r_players room_ash) \<le> 2" by code_simp
  have h5: "\<forall>a \<in> set ?attempts. upper (fst a) = ''ABC123''" by code_simp
  have h6: "upper ''Abc123'' = ''ABC123''" by code_simp
  have h7: "2 \<le> length (r_players room_ash) + length ?attempts" by code_simp
  from join_room_capacity[OF h1 h2 h3 h4 h5 h6, of "''Gary''" None "''p-gary''" 400] h7
  show ?thesis by blast
qed

lemma add_player_link:
  assumes "r_max_players room = 2"
      and "r_link_cable_connected room = (length (r_players room) = 2)"
      and "add_player room player now = (room1, player1, True)"
  shows "r_link_cable_connected room1 = (length (r_players room1) = 2)"
  using assms by (auto simp: add_player_def Let_def split: if_splits)

lemma remove_player_link:
  assumes "length (r_players room) \<le> 2"
      and "r_link_cable_connected room = (length (r_players room) = 2)"
  shows "r_link_cable_connected (fst (remove_player room player_id now)) =
           (length (r_players (fst (remove_player room player_id now))) = 2)"
proof -
  let ?ps = "filter (\<lambda>p. p_id p \<noteq> player_id) (r_players room)"
  have le: "length ?ps \<le> length (r_players room)" by simp
  show ?thesis
  proof (cases "length ?ps < 2")
    case True
    then show ?thesis by (auto simp: remove_player_def Let_def split: list.splits)
  next
    case False
    with le assms(1) have "length ?ps = 2" "length (r_players room) = 2" by linarith+
    with assms(2) show ?thesis by (auto simp: remove_player_def Let_def split: list.splits)
  qed
qed

text \<open>
  C4. Let a room of capacity 2 hold at most 2 members with its link flag equal to
  "exactly 2 members". Then the flag again equals "exactly 2 members" in the room that
  \<open>remove_player\<close> leaves (also when it is left empty), in the room a successful
  \<open>join_room\<close> returns and stores, and in the room \<open>leave_room\<close> returns and stores.
\<close>

theorem link_flag_after_join_and_leave:
  assumes "r_max_players room = 2" and "length (r_players room) \<le> 2"
      and "r_link_cable_connected room = (length (r_players room) = 2)"
  shows "r_link_cable_connected (fst (remove_player room player_id now)) =
           (length (r_players (fst (remove_player room player_id now))) = 2) \<and>
         (map_of (rooms m) (upper code) = Some room \<and>
          join_room m code player_name rom_name player_uuid now =
            (m1, Some joined_room, joined, msg)
            \<longrightarrow> map_of (rooms m1) (upper code) = Some joined_room \<and>
                r_link_cable_connected joined_room = (length (r_players joined_room) = 2)) \<and>
         (map_of (player_to_room m) player_id = Some room_id \<and>
          map_of (rooms m) room_id = Some room \<and>
          leave_room m player_id now = (m2, Some left_room)
            \<longrightarrow> map_of (rooms m2) room_id = Some left_room \<and>
                r_link_cable_connected left_room = (length (r_players left_room) = 2))"
proof (intro conjI impI)
  show "r_link_cable_connected (fst (remove_player room player_id now)) =
           (length (r_players (fst (remove_player room player_id now))) = 2)"
    by (rule remove_player_link[OF assms(2) assms(3)])
next
  assume a: "map_of (rooms m) (upper code) = Some room \<and>
          join_room m code player_name rom_name player_uuid now =
            (m1, Some joined_room, joined, msg)"
  then obtain player1 where ap: "add_player room
       (if truthy rom_name
        then (Player_new player_uuid player_name False rom_name now)
               \<lparr>p_rom_loaded := True, p_status := READY\<rparr>
        else Player_new player_uuid player_name False rom_name now) now =
          (joined_room, player1, True)"
    and m1: "rooms m1 = AList.update (upper code) joined_room (rooms m)"
    by (auto simp: join_room_def Let_def split: if_splits prod.splits)
  show "map_of (rooms m1) (upper code) = Some joined_room"
    using m1 by (simp add: update_conv')
  show "r_link_cable_connected joined_room = (length (r_players joined_room) = 2)"
    using add_player_link[OF assms(1) assms(3) ap] .
next
  assume a: "map_of (player_to_room m) player_id = Some room_id \<and>
          map_of (rooms m) room_id = Some room \<and>
          leave_room m player_id now = (m2, Some left_room)"
  then have r2: "left_room = fst (remove_player room player_id now)"
    and m2: "map_of (rooms m2) room_id = Some left_room"
    by (auto simp: leave_room_def Let_def update_conv' split: if_splits prod.splits)
  show "map_of (rooms m2) room_id = Some left_room" by (rule m2)
  show "r_link_cable_connected left_room = (length (r_players left_room) = 2)"
    unfolding r2 by (rule remove_player_link[OF assms(2) assms(3)])
qed

theorem link_flag_after_join_and_leave_witness:
  "r_link_cable_connected
     (the (fst (snd (join_room registry_ash ''abc123'' ''Misty'' None ''p-misty'' 200)))) \<and>
   length (r_players
     (the (fst (snd (join_room registry_ash ''abc123'' ''Misty'' None ''p-misty'' 200))))) = 2 \<and>
   \<not> r_link_cable_connected (the (snd (leave_room registry_both ''p-misty'' 300))) \<and>
   length (r_players (the (snd (leave_room registry_both ''p-misty'' 300)))) = 1"
proof -
  let ?j = "join_room registry_ash ''abc123'' ''Misty'' None ''p-misty'' 200"
  let ?l = "leave_room registry_both ''p-misty'' 300"
  have a1: "r_max_players room_ash = 2" by code_simp
  have a2: "length (r_players room_ash) \<le> 2" by code_simp
  have a3: "r_link_cable_connected room_ash = (length (r_players room_ash) = 2)" by code_simp
  have j1: "map_of (rooms registry_ash) (upper ''abc123'') = Some room_ash" by code_simp
  have j2: "?j = (fst ?j, Some (the (fst (snd ?j))), fst (snd (snd ?j)), snd (snd (snd ?j)))"
    by code_simp
  have j3: "length (r_players (the (fst (snd ?j)))) = 2" by code_simp
  have b1: "r_max_players room_both = 2" by code_simp
  have b2: "length (r_players room_both) \<le> 2" by code_simp
  have b3: "r_link_cable_connected room_both = (length (r_players room_both) = 2)"
    by code_simp
  have l1: "map_of (player_to_room registry_both) ''p-misty'' = Some ''ABC123''" by code_simp
  have l2: "map_of (rooms registry_both) ''ABC123'' = Some room_both" by code_simp
  have l3: "?l = (fst ?l, Some (the (snd ?l)))" by code_simp
  have l4: "length (r_players (the (snd ?l))) = 1" by code_simp
  note j = link_flag_after_join_and_leave[OF a1 a2 a3, THEN conjunct2, THEN conjunct1, rule_format,
             OF conjI, OF j1 j2]
  note l = link_flag_after_join_and_leave[OF b1 b2 b3, THEN conjunct2, THEN conjunct2, rule_format,
             OF conjI, OF l1 conjI, OF l2 l3]
  from j j3 have c1: "r_link_cable_connected (the (fst (snd ?j)))" by simp
  from l l4 have c2: "\<not> r_link_cable_connected (the (snd ?l))" by simp
  from c1 c2 j3 l4 show ?thesis by simp
qed

section \<open>Leaving a room\<close>

lemma sorted_first_least:
  "sorted (map f xs) \<Longrightarrow> filter P xs = y # ys \<Longrightarrow> \<forall>z \<in> set ys. f y \<le> f z"
proof -
  assume s: "sorted (map f xs)" and e: "filter P xs = y # ys"
  have "sorted (map f (filter P xs))" using s by (rule sorted_filter)
  with e show ?thesis by simp
qed

text \<open>
  C5. Let a player be indexed to a registered room whose host id is that player, in
  which no member other than the host carries the host flag and whose members are
  listed in joining order (non-decreasing join timestamps). When \<open>leave_room\<close> removes
  that player and members remain, the first remaining member gets the host flag and
  the host id, it is the only member with the host flag, and no remaining member joined
  earlier; the updated room is returned and stays registered. When no member remains,
  \<open>leave_room\<close> returns nothing, the room is deleted, and \<open>get_room\<close> finds nothing for
  any spelling of its code.
\<close>

theorem leave_room_host_reassigned:
  assumes "map_of (player_to_room m) player_id = Some room_id" and "room_id \<noteq> []"
      and "map_of (rooms m) room_id = Some room"
      and "r_host_id room = player_id"
      and "\<forall>p \<in> set (r_players room). p_is_host p \<longrightarrow> p_id p = player_id"
      and "sorted (map p_joined_at (r_players room))"
  shows "case filter (\<lambda>p. p_id p \<noteq> player_id) (r_players room) of
           [] \<Rightarrow> (\<exists>m1. leave_room m player_id now = (m1, None) \<and>
                   map_of (rooms m1) room_id = None \<and>
                   (\<forall>code. upper code = room_id \<longrightarrow> get_room m1 code = None))
         | next_player # rest \<Rightarrow>
             (\<exists>m1 room1. leave_room m player_id now = (m1, Some room1) \<and>
                   map_of (rooms m1) room_id = Some room1 \<and>
                   r_players room1 = next_player\<lparr>p_is_host := True\<rparr> # rest \<and>
                   r_host_id room1 = p_id next_player \<and>
                   filter p_is_host (r_players room1) = [next_player\<lparr>p_is_host := True\<rparr>] \<and>
                   (\<forall>p \<in> set (r_players room1). p_joined_at next_player \<le> p_joined_at p))"
proof (cases "filter (\<lambda>p. p_id p \<noteq> player_id) (r_players room)")
  case Nil
  then show ?thesis using assms(1-3)
    by (auto simp: leave_room_def remove_player_def Let_def get_room_def delete_conv'
             split: prod.splits)
next
  case (Cons next_player rest)
  have "set rest \<subseteq> set (filter (\<lambda>p. p_id p \<noteq> player_id) (r_players room))"
    using Cons by auto
  then have "\<forall>p \<in> set rest. \<not> p_is_host p" using assms(5) by auto
  then have nohost: "filter p_is_host rest = []" by (simp add: filter_empty_conv)
  have least: "\<forall>p \<in> set rest. p_joined_at next_player \<le> p_joined_at p"
    using sorted_first_least[OF assms(6) Cons] .
  show ?thesis using assms(1-4) Cons nohost least
    by (auto simp: leave_room_def remove_player_def Let_def update_conv' split: prod.splits)
qed

theorem leave_room_host_reassigned_witness:
  "\<exists>m1 room1. leave_room registry_both ''p-ash'' 500 = (m1, Some room1) \<and>
       map_of (rooms m1) ''ABC123'' = Some room1 \<and>
       r_players room1 = [misty\<lparr>p_is_host := True\<rparr>] \<and>
       r_host_id room1 = ''p-misty'' \<and>
       filter p_is_host (r_players room1) = [misty\<lparr>p_is_host := True\<rparr>]"
proof -
  have h1: "map_of (player_to_room registry_both) ''p-ash'' = Some ''ABC123''" by code_simp
  have h2: "''ABC123'' \<noteq> []" by simp
  have h3: "map_of (rooms registry_both) ''ABC123'' = Some room_both" by code_simp
  have h4: "r_host_id room_both = ''p-ash''" by code_simp
  have h5: "\<forall>p \<in> set (r_players room_both). p_is_host p \<longrightarrow> p_id p = ''p-ash''"
    by code_simp
  have h6: "sorted (map p_joined_at (r_players room_both))" by code_simp
  have f: "filter (\<lambda>p. p_id p \<noteq> ''p-ash'') (r_players room_both) = [misty]" by code_simp
  have i: "p_id misty = ''p-misty''" by code_simp
  from leave_room_host_reassigned[OF h1 h2 h3 h4 h5 h6, of 500] f i
  show ?thesis by auto
qed

section \<open>Binding and unbinding a connection\<close>

lemma find_modify_player:
  "find (\<lambda>p. p_id p = player_id) ps = Some player \<Longrightarrow> (\<And>p. p_id (f p) = p_id p) \<Longrightarrow>
   find (\<lambda>p. p_id p = player_id) (modify_player player_id f ps) = Some (f player)"
  by (induction ps) (auto split: if_splits)

lemma map_p_id_modify_player:
  "(\<And>p. p_id (f p) = p_id p) \<Longrightarrow> map p_id (modify_player player_id f ps) = map p_id ps"
  by (induction ps) auto

lemma get_player_room_SomeD:
  "get_player_room m player_id = Some room \<Longrightarrow>
   \<exists>room_id. map_of (player_to_room m) player_id = Some room_id \<and> room_id \<noteq> [] \<and>
             map_of (rooms m) room_id = Some room"
  by (auto simp: get_player_room_def truthy_def Let_def split: if_splits option.splits)

text \<open>
  C6. For a player with a non-empty id that \<open>get_player_room\<close> resolves to a room holding
  it, \<open>connect_socket\<close> succeeds, and \<open>disconnect_socket\<close> with the same connection id
  right after it returns the room and the player. Afterwards \<open>get_player_room\<close> still
  resolves the player to that room, the room has the same members in the same order,
  the player has status \<open>DISCONNECTED\<close> and no connection handle, and the connection id
  has no index entry.
\<close>

theorem bind_unbind_round_trip:
  assumes "get_player_room m player_id = Some room"
      and "get_player room player_id = Some player"
      and "player_id \<noteq> []"
  shows "\<exists>m1 m2 room2 player2.
           connect_socket m socket_id player_id now = (m1, True) \<and>
           disconnect_socket m1 socket_id = (m2, Some (room2, player2)) \<and>
           get_player_room m2 player_id = Some room2 \<and>
           get_player room2 player_id = Some player2 \<and>
           map p_id (r_players room2) = map p_id (r_players room) \<and>
           p_status player2 = DISCONNECTED \<and> p_socket_id player2 = None \<and>
           map_of (socket_to_player m2) socket_id = None"
proof -
  from get_player_room_SomeD[OF assms(1)] obtain room_id where
    rid: "map_of (player_to_room m) player_id = Some room_id" "room_id \<noteq> []"
         "map_of (rooms m) room_id = Some room" by auto
  define f where "f = (\<lambda>p::Player. p\<lparr>p_socket_id := Some socket_id, p_status := CONNECTED\<rparr>)"
  define g where "g = (\<lambda>p::Player. p\<lparr>p_socket_id := None, p_status := DISCONNECTED\<rparr>)"
  define room1 where "room1 = room\<lparr>r_players := modify_player player_id f (r_players room),
                                   r_last_activity := now\<rparr>"
  define m1 where "m1 = m\<lparr>socket_to_player := AList.update socket_id player_id (socket_to_player m),
                          rooms := AList.update room_id room1 (rooms m)\<rparr>"
  have c: "connect_socket m socket_id player_id now = (m1, True)"
    using assms rid
    by (simp add: connect_socket_def store_player_room_def m1_def room1_def f_def)
  have gpr1: "get_player_room m1 player_id = Some room1"
    using rid by (simp add: get_player_room_def truthy_def m1_def update_conv')
  have gp1: "get_player room1 player_id = Some (f player)"
    using assms(2) find_modify_player[of player_id "r_players room" player f]
    by (simp add: get_player_def room1_def f_def)
  define room2 where "room2 = room1\<lparr>r_players := modify_player player_id g (r_players room1)\<rparr>"
  define m2 where "m2 = m1\<lparr>rooms := AList.update room_id room2 (rooms m1),
                          socket_to_player := AList.delete socket_id (socket_to_player m1)\<rparr>"
  have s1: "map_of (socket_to_player m1) socket_id = Some player_id"
    by (simp add: m1_def update_conv')
  have p1: "map_of (player_to_room m1) player_id = Some room_id"
    using rid by (simp add: m1_def)
  have d: "disconnect_socket m1 socket_id = (m2, Some (room2, g (f player)))"
    using s1 gpr1 gp1 p1 assms(3)
    by (simp add: disconnect_socket_def truthy_def store_player_room_def m2_def room2_def g_def
        Let_def)
  have gpr2: "get_player_room m2 player_id = Some room2"
    using rid by (simp add: get_player_room_def truthy_def m2_def m1_def update_conv')
  have gp2: "get_player room2 player_id = Some (g (f player))"
    using gp1 find_modify_player[of player_id "r_players room1" "f player" g]
    by (simp add: get_player_def room2_def g_def)
  have ids: "map p_id (r_players room2) = map p_id (r_players room)"
    by (simp add: room2_def room1_def map_p_id_modify_player f_def g_def)
  have gone: "map_of (socket_to_player m2) socket_id = None"
    by (simp add: m2_def delete_conv')
  have "p_status (g (f player)) = DISCONNECTED" "p_socket_id (g (f player)) = None"
    by (simp_all add: g_def)
  with c d gpr2 gp2 ids gone show ?thesis by blast
qed

theorem bind_unbind_round_trip_witness:
  "\<exists>m1 m2 room2 player2.
     connect_socket registry_ash ''s1'' ''p-ash'' 300 = (m1, True) \<and>
     disconnect_socket m1 ''s1'' = (m2, Some (room2, player2)) \<and>
     get_player_room m2 ''p-ash'' = Some room2 \<and>
     get_player room2 ''p-ash'' = Some player2 \<and>
     map p_id (r_players room2) = map p_id (r_players room_ash) \<and>
     p_status player2 = DISCONNECTED \<and> p_socket_id player2 = None \<and>
     map_of (socket_to_player m2) ''s1'' = None"
proof -
  have h1: "get_player_room registry_ash ''p-ash'' = Some room_ash" by code_simp
  have h2: "get_player room_ash ''p-ash'' = Some ash" by code_simp
  have h3: "''p-ash'' \<noteq> []" by simp
  show ?thesis by (rule bind_unbind_round_trip[OF h1 h2 h3])
qed

text \<open>
  C2. The specified invariant is that every connection entry names a member whose
  handle is that connection, and every player entry a registered room holding the
  player. It holds in the registry with Ash alone in room ABC123 and still holds after
  Ash is bound to connection s1. Binding Ash to a second connection s2 succeeds and
  leaves the entry of s1 in the index while the handle of Ash is s2, so the invariant
  is broken; when Ash then leaves, the room is deleted and the entry of s2 stays behind.
\<close>

theorem rebinding_breaks_index_consistency:
  "index_consistent registry_ash \<and>
   snd (connect_socket registry_ash ''s1'' ''p-ash'' 300) \<and>
   index_consistent (fst (connect_socket registry_ash ''s1'' ''p-ash'' 300)) \<and>
   snd (connect_socket (fst (connect_socket registry_ash ''s1'' ''p-ash'' 300))
          ''s2'' ''p-ash'' 400) \<and>
   socket_to_player registry_rebound = [(''s1'', ''p-ash''), (''s2'', ''p-ash'')] \<and>
   map p_socket_id (r_players (the (get_player_room registry_rebound ''p-ash''))) =
     [Some ''s2''] \<and>
   \<not> index_consistent registry_rebound \<and>
   rooms (fst (leave_room registry_rebound ''p-ash'' 500)) = [] \<and>
   socket_to_player (fst (leave_room registry_rebound ''p-ash'' 500)) = [(''s2'', ''p-ash'')] \<and>
   \<not> index_consistent (fst (leave_room registry_rebound ''p-ash'' 500))"
  by code_simp

section \<open>Removing rooms and the sweeper\<close>

lemma sockets_ok_filter: "sockets_ok xs \<Longrightarrow> sockets_ok (filter P xs)"
  by (auto simp: sockets_ok_def distinct_map_filter)

lemma delete_filter: "AList.delete i xs = filter (\<lambda>(j, r). j \<noteq> i) xs"
  by (induction xs) (auto simp: AList.delete_eq)

lemma map_of_filter_key:
  "P k \<Longrightarrow> map_of (filter (\<lambda>(i, r). P i) xs) k = map_of xs k"
  by (induction xs) auto

text \<open>
  What \<open>leave_room\<close> does to the connection index, when no player has two entries: every
  entry of the leaving player is gone.
\<close>

lemma socket_entry_removed:
  assumes "sockets_ok xs"
  shows "(let socket_id = map_option fst (find (\<lambda>(sid, pid). pid = player_id) xs)
          in if truthy socket_id then AList.delete (the socket_id) xs else xs) =
         filter (\<lambda>(sid, pid). pid \<noteq> player_id) xs"
  using assms
proof (induction xs)
  case Nil
  then show ?case by (simp add: truthy_def)
next
  case (Cons x xs)
  obtain sid pid where x: "x = (sid, pid)" by (cases x)
  from Cons.prems have ok: "sockets_ok xs" by (auto simp: sockets_ok_def)
  show ?case
  proof (cases "pid = player_id")
    case True
    from Cons.prems x have "sid \<noteq> []" "sid \<notin> fst ` set xs" "pid \<notin> snd ` set xs"
      by (auto simp: sockets_ok_def)
    then have "AList.delete sid xs = xs" "filter (\<lambda>(s, p). p \<noteq> player_id) xs = xs"
      using True by (force simp: filter_id_conv)+
    then show ?thesis using x True \<open>sid \<noteq> []\<close> by (simp add: truthy_def AList.delete_eq)
  next
    case False
    from Cons.prems x have sid: "sid \<notin> fst ` set xs" by (auto simp: sockets_ok_def)
    show ?thesis
    proof (cases "find (\<lambda>(sid, pid). pid = player_id) xs")
      case None
      with Cons.IH[OF ok] x False show ?thesis by (simp add: truthy_def)
    next
      case (Some e)
      then have "e \<in> set xs" by (metis find_Some_iff nth_mem)
      with sid have "fst e \<noteq> sid" by auto
      with Cons.IH[OF ok] x False Some show ?thesis
        by (auto simp: truthy_def AList.delete_eq split: if_splits)
    qed
  qed
qed

lemma leave_room_member:
  assumes "map_of (player_to_room m) player_id = Some k" and "k \<noteq> []"
      and "map_of (rooms m) k = Some room" and "sockets_ok (socket_to_player m)"
  shows "fst (leave_room m player_id now) =
           m\<lparr>rooms := (if filter (\<lambda>p. p_id p \<noteq> player_id) (r_players room) = []
                       then AList.delete k (rooms m)
                       else AList.update k (fst (remove_player room player_id now)) (rooms m)),
             player_to_room := AList.delete player_id (player_to_room m),
             socket_to_player := filter (\<lambda>(sid, pid). pid \<noteq> player_id) (socket_to_player m)\<rparr>"
proof -
  have e: "snd (remove_player room player_id now) =
             (filter (\<lambda>p. p_id p \<noteq> player_id) (r_players room) = [])"
    by (simp add: remove_player_def Let_def)
  show ?thesis
    using assms(1-3) socket_entry_removed[OF assms(4), of player_id] e
    by (simp add: leave_room_def Let_def split: prod.splits) (auto simp: delete_update_same)
qed

lemma remove_player_ids:
  "map p_id (r_players (fst (remove_player room player_id now))) =
     filter (\<lambda>i. i \<noteq> player_id) (map p_id (r_players room))"
  by (auto simp: remove_player_def Let_def filter_map comp_def split: list.splits)

lemma filter_ids_empty:
  "(filter (\<lambda>p. p_id p \<noteq> player_id) ps = []) =
   (filter (\<lambda>i. i \<noteq> player_id) (map p_id ps) = [])"
  by (simp add: filter_map comp_def)

text \<open>The loop of \<open>remove_room\<close> over the members of a registered room.\<close>

lemma leave_all_members:
  assumes "map_of (rooms m) k = Some room" and "k \<noteq> []"
      and "map p_id (r_players room) = ids" and "distinct ids" and "ids \<noteq> []"
      and "\<forall>i \<in> set ids. map_of (player_to_room m) i = Some k"
      and "sockets_ok (socket_to_player m)"
  shows "fold (\<lambda>i s. fst (leave_room s i now)) ids m =
           m\<lparr>rooms := AList.delete k (rooms m),
             player_to_room := filter (\<lambda>(i, r). i \<notin> set ids) (player_to_room m),
             socket_to_player := filter (\<lambda>(sid, i). i \<notin> set ids) (socket_to_player m)\<rparr>"
  using assms
proof (induction ids arbitrary: m room)
  case Nil
  then show ?case by simp
next
  case (Cons i ids)
  let ?m1 = "fst (leave_room m i now)"
  let ?room1 = "fst (remove_player room i now)"
  have i: "map_of (player_to_room m) i = Some k" using Cons.prems(6) by simp
  have rest: "filter (\<lambda>j. j \<noteq> i) (map p_id (r_players room)) = ids"
    using Cons.prems(3,4) by (auto simp: filter_id_conv)
  note m1 = leave_room_member[OF i Cons.prems(2) Cons.prems(1) Cons.prems(7), of now]
  show ?case
  proof (cases "ids = []")
    case True
    with rest have "filter (\<lambda>p. p_id p \<noteq> i) (r_players room) = []"
      by (simp add: filter_ids_empty)
    with m1 True show ?thesis by (simp add: delete_filter)
  next
    case False
    with rest have ne: "filter (\<lambda>p. p_id p \<noteq> i) (r_players room) \<noteq> []"
      by (simp add: filter_ids_empty)
    with m1 have m1': "?m1 = m\<lparr>rooms := AList.update k ?room1 (rooms m),
             player_to_room := AList.delete i (player_to_room m),
             socket_to_player := filter (\<lambda>(sid, pid). pid \<noteq> i) (socket_to_player m)\<rparr>"
      by simp
    have a1: "map_of (rooms ?m1) k = Some ?room1" by (simp add: m1' update_conv')
    have a3: "map p_id (r_players ?room1) = ids" using rest by (simp add: remove_player_ids)
    have a4: "distinct ids" using Cons.prems(4) by simp
    have a6: "\<forall>j \<in> set ids. map_of (player_to_room ?m1) j = Some k"
      using Cons.prems(4,6) by (auto simp: m1' delete_conv')
    have a7: "sockets_ok (socket_to_player ?m1)"
      using Cons.prems(7) by (simp add: m1' sockets_ok_filter)
    have "fold (\<lambda>i s. fst (leave_room s i now)) (i # ids) m =
          fold (\<lambda>i s. fst (leave_room s i now)) ids ?m1" by simp
    also have "\<dots> = ?m1\<lparr>rooms := AList.delete k (rooms ?m1),
             player_to_room := filter (\<lambda>(i, r). i \<notin> set ids) (player_to_room ?m1),
             socket_to_player := filter (\<lambda>(sid, i). i \<notin> set ids) (socket_to_player ?m1)\<rparr>"
      by (rule Cons.IH[OF a1 Cons.prems(2) a3 a4 False a6 a7])
    also have "\<dots> = m\<lparr>rooms := AList.delete k (rooms m),
             player_to_room := filter (\<lambda>(j, r). j \<notin> set (i # ids)) (player_to_room m),
             socket_to_player := filter (\<lambda>(sid, j). j \<notin> set (i # ids)) (socket_to_player m)\<rparr>"
      by (simp add: m1' delete_update_same) (simp add: delete_filter split_def conj_commute)
    finally show ?thesis .
  qed
qed

lemma registry_inv_member:
  "registry_inv m \<Longrightarrow> (k, room) \<in> set (rooms m) \<Longrightarrow> p \<in> set (r_players room) \<Longrightarrow>
   map_of (player_to_room m) (p_id p) = Some k"
  unfolding registry_inv_def by blast

lemma registry_inv_room:
  "registry_inv m \<Longrightarrow> (k, room) \<in> set (rooms m) \<Longrightarrow>
   k \<noteq> [] \<and> distinct (map p_id (r_players room))"
  unfolding registry_inv_def by blast

lemma remove_room_unregistered:
  "map_of (rooms m) k = None \<Longrightarrow> remove_room m k now = m"
  by (simp add: remove_room_def)

lemma remove_room_registered:
  assumes "registry_inv m" and "map_of (rooms m) k = Some room"
  shows "remove_room m k now =
           m\<lparr>rooms := AList.delete k (rooms m),
             player_to_room :=
               filter (\<lambda>(i, r). i \<notin> p_id ` set (r_players room)) (player_to_room m),
             socket_to_player :=
               filter (\<lambda>(sid, i). i \<notin> p_id ` set (r_players room)) (socket_to_player m)\<rparr>"
proof -
  have kr: "(k, room) \<in> set (rooms m)" using assms(2) by (rule map_of_SomeD)
  have fm: "fold (\<lambda>player s. fst (leave_room s (p_id player) now)) (r_players room) m =
            fold (\<lambda>i s. fst (leave_room s i now)) (map p_id (r_players room)) m"
    by (simp add: fold_map comp_def)
  show ?thesis
  proof (cases "r_players room = []")
    case True
    then show ?thesis using assms(2) by (simp add: remove_room_def)
  next
    case False
    have so: "sockets_ok (socket_to_player m)"
      using assms(1) by (simp add: registry_inv_def)
    have "fold (\<lambda>i s. fst (leave_room s i now)) (map p_id (r_players room)) m =
           m\<lparr>rooms := AList.delete k (rooms m),
             player_to_room :=
               filter (\<lambda>(i, r). i \<notin> set (map p_id (r_players room))) (player_to_room m),
             socket_to_player :=
               filter (\<lambda>(sid, i). i \<notin> set (map p_id (r_players room))) (socket_to_player m)\<rparr>"
      using registry_inv_room[OF assms(1) kr] registry_inv_member[OF assms(1) kr] False
      by (intro leave_all_members[OF assms(2) _ refl _ _ _ so]) auto
    then show ?thesis using assms(2)
      by (simp add: remove_room_def fm delete_conv')
  qed
qed

lemma remove_room_inv:
  assumes "registry_inv m"
  shows "registry_inv (remove_room m k now)"
proof (cases "map_of (rooms m) k")
  case None
  then show ?thesis using assms by (simp add: remove_room_unregistered)
next
  case (Some room)
  note eq = remove_room_registered[OF assms Some, of now]
  have d: "distinct (map fst (rooms m))" using assms by (simp add: registry_inv_def)
  have members: "\<forall>(k', room') \<in> set (AList.delete k (rooms m)).
          k' \<noteq> [] \<and> distinct (map p_id (r_players room')) \<and>
          (\<forall>p \<in> set (r_players room').
             map_of (filter (\<lambda>(i, r). i \<notin> p_id ` set (r_players room)) (player_to_room m))
               (p_id p) = Some k')"
  proof (clarify, intro conjI ballI)
    fix k' room' assume in': "(k', room') \<in> set (AList.delete k (rooms m))"
    then have in0: "(k', room') \<in> set (rooms m)" and ne: "k' \<noteq> k"
      by (auto simp: delete_filter)
    from registry_inv_room[OF assms in0]
    show "k' \<noteq> []" "distinct (map p_id (r_players room'))" by simp_all
    fix p assume p: "p \<in> set (r_players room')"
    have pk: "map_of (player_to_room m) (p_id p) = Some k'"
      by (rule registry_inv_member[OF assms in0 p])
    have "p_id p \<notin> p_id ` set (r_players room)"
    proof
      assume "p_id p \<in> p_id ` set (r_players room)"
      then obtain q where "q \<in> set (r_players room)" "p_id q = p_id p" by auto
      with registry_inv_member[OF assms map_of_SomeD[OF Some], of q]
      have "map_of (player_to_room m) (p_id p) = Some k" by simp
      with pk ne show False by simp
    qed
    then show "map_of (filter (\<lambda>(i, r). i \<notin> p_id ` set (r_players room)) (player_to_room m))
               (p_id p) = Some k'"
      using pk by (simp add: map_of_filter_key)
  qed
  have so: "sockets_ok (filter (\<lambda>(sid, i). i \<notin> p_id ` set (r_players room)) (socket_to_player m))"
    using assms by (intro sockets_ok_filter) (simp add: registry_inv_def)
  show ?thesis
    unfolding eq registry_inv_def using d members so
    by (simp add: distinct_delete)
qed

lemma remove_room_rooms:
  assumes "registry_inv m"
  shows "rooms (remove_room m k now) = AList.delete k (rooms m)"
proof (cases "map_of (rooms m) k")
  case None
  then have "k \<notin> fst ` set (rooms m)" by (simp add: map_of_eq_None_iff)
  then show ?thesis using None by (simp add: remove_room_unregistered)
next
  case (Some room)
  then show ?thesis by (simp add: remove_room_registered[OF assms Some])
qed

lemma remove_room_shrinks:
  assumes "registry_inv m"
  shows "set (player_to_room (remove_room m k now)) \<subseteq> set (player_to_room m) \<and>
         set (socket_to_player (remove_room m k now)) \<subseteq> set (socket_to_player m)"
proof (cases "map_of (rooms m) k")
  case None
  then show ?thesis by (simp add: remove_room_unregistered)
next
  case (Some room)
  then show ?thesis by (auto simp: remove_room_registered[OF assms Some])
qed

lemma remove_room_members_gone:
  assumes "registry_inv m" and "(k, room) \<in> set (rooms m)" and "p \<in> set (r_players room)"
  shows "p_id p \<notin> fst ` set (player_to_room (remove_room m k now)) \<and>
         p_id p \<notin> snd ` set (socket_to_player (remove_room m k now))"
proof -
  have "map_of (rooms m) k = Some room"
    using assms(1,2) by (simp add: registry_inv_def)
  from remove_room_registered[OF assms(1) this, of now] assms(3) show ?thesis by auto
qed

lemma sweep_rooms:
  assumes "registry_inv m"
  shows "registry_inv (fold (\<lambda>k s. remove_room s k now) ks m) \<and>
         rooms (fold (\<lambda>k s. remove_room s k now) ks m) =
           filter (\<lambda>(k, room). k \<notin> set ks) (rooms m) \<and>
         set (player_to_room (fold (\<lambda>k s. remove_room s k now) ks m)) \<subseteq> set (player_to_room m) \<and>
         set (socket_to_player (fold (\<lambda>k s. remove_room s k now) ks m)) \<subseteq> set (socket_to_player m) \<and>
         (\<forall>(k, room) \<in> set (rooms m). k \<in> set ks \<longrightarrow>
            (\<forall>p \<in> set (r_players room).
               p_id p \<notin> fst ` set (player_to_room (fold (\<lambda>k s. remove_room s k now) ks m)) \<and>
               p_id p \<notin> snd ` set (socket_to_player (fold (\<lambda>k s. remove_room s k now) ks m))))"
  using assms
proof (induction ks arbitrary: m)
  case Nil
  then show ?case by simp
next
  case (Cons k ks)
  let ?m1 = "remove_room m k now"
  let ?m2 = "fold (\<lambda>k s. remove_room s k now) ks ?m1"
  have inv1: "registry_inv ?m1" by (rule remove_room_inv[OF Cons.prems])
  note IH = Cons.IH[OF inv1]
  note r1 = remove_room_rooms[OF Cons.prems, of k now]
  note sh = remove_room_shrinks[OF Cons.prems, of k now]
  have rooms: "rooms ?m2 = filter (\<lambda>(k', room). k' \<notin> set (k # ks)) (rooms m)"
    using IH r1 by (simp add: delete_filter split_def conj_commute)
  have gone: "\<forall>(k', room) \<in> set (rooms m). k' \<in> set (k # ks) \<longrightarrow>
            (\<forall>p \<in> set (r_players room).
               p_id p \<notin> fst ` set (player_to_room ?m2) \<and>
               p_id p \<notin> snd ` set (socket_to_player ?m2))"
  proof (clarify)
    fix k' room p
    assume kr: "(k', room) \<in> set (rooms m)" and k': "k' \<in> set (k # ks)"
       and p: "p \<in> set (r_players room)"
    show "p_id p \<notin> fst ` set (player_to_room ?m2) \<and>
          p_id p \<notin> snd ` set (socket_to_player ?m2)"
    proof (cases "k' = k")
      case True
      from remove_room_members_gone[OF Cons.prems kr[unfolded True] p, of now] IH
      show ?thesis by blast
    next
      case False
      with k' have "k' \<in> set ks" by simp
      moreover from kr False have "(k', room) \<in> set (rooms ?m1)"
        by (simp add: r1 delete_filter)
      ultimately show ?thesis using IH p by blast
    qed
  qed
  show ?case using IH sh rooms gone by (simp only: fold_simps) blast
qed

lemma key_in_filtered:
  assumes "distinct (map fst xs)" and "(k, v) \<in> set xs"
  shows "(k \<in> set (map fst (filter P xs))) = P (k, v)"
proof
  assume "k \<in> set (map fst (filter P xs))"
  then obtain v' where "(k, v') \<in> set xs" "P (k, v')" by auto
  with assms show "P (k, v)" by (auto dest: eq_key_imp_eq_value)
next
  assume "P (k, v)"
  with assms(2) show "k \<in> set (map fst (filter P xs))" by force
qed

text \<open>
  In a registry that satisfies the representation invariant, one cycle of the sweeper
  leaves exactly the rooms that are active and whose last activity is not older than
  one hour before the start of the cycle, unchanged and in their order. For every room
  it removes, no member keeps an entry in the player index or in the connection index,
  and \<open>get_room\<close> finds nothing for any spelling of its code; this holds in particular
  for a room whose last activity lies two hours in the past.
\<close>

lemma sweep_cycle_evicts_expired:
  assumes "registry_inv m"
  shows "rooms (cleanup_inactive_rooms m now) =
           filter (\<lambda>(k, room). \<not> (r_last_activity room < now - 3600000000 \<or>
                                   \<not> r_is_active room)) (rooms m) \<and>
         (\<forall>(k, room) \<in> set (rooms m).
            r_last_activity room < now - 3600000000 \<or> \<not> r_is_active room \<or>
            r_last_activity room = now - 7200000000 \<longrightarrow>
              (\<forall>code. upper code = k \<longrightarrow> get_room (cleanup_inactive_rooms m now) code = None) \<and>
              (\<forall>p \<in> set (r_players room).
                 map_of (player_to_room (cleanup_inactive_rooms m now)) (p_id p) = None \<and>
                 p_id p \<notin> snd ` set (socket_to_player (cleanup_inactive_rooms m now))))"
proof -
  let ?E = "\<lambda>(k::string, room). r_last_activity room < now - 3600000000 \<or> \<not> r_is_active room"
  let ?ks = "rooms_to_remove m now"
  let ?m1 = "cleanup_inactive_rooms m now"
  have ks: "?ks = map fst (filter ?E (rooms m))" by (simp add: rooms_to_remove_def)
  have d: "distinct (map fst (rooms m))" using assms by (simp add: registry_inv_def)
  note sw = sweep_rooms[OF assms, of now ?ks, folded cleanup_inactive_rooms_def]
  have inks: "\<And>k room. (k, room) \<in> set (rooms m) \<Longrightarrow> (k \<in> set ?ks) = ?E (k, room)"
    unfolding ks by (rule key_in_filtered[OF d])
  have "filter (\<lambda>(k, room). k \<notin> set ?ks) (rooms m) = filter (\<lambda>x. \<not> ?E x) (rooms m)"
    by (rule filter_cong[OF refl]) (use inks in auto)
  with sw have rooms: "rooms ?m1 = filter (\<lambda>x. \<not> ?E x) (rooms m)" by simp
  have gone: "\<forall>(k, room) \<in> set (rooms m).
            r_last_activity room < now - 3600000000 \<or> \<not> r_is_active room \<or>
            r_last_activity room = now - 7200000000 \<longrightarrow>
              (\<forall>code. upper code = k \<longrightarrow> get_room ?m1 code = None) \<and>
              (\<forall>p \<in> set (r_players room).
                 map_of (player_to_room ?m1) (p_id p) = None \<and>
                 p_id p \<notin> snd ` set (socket_to_player ?m1))"
  proof (clarify)
    fix k room
    assume kr: "(k, room) \<in> set (rooms m)"
       and e: "r_last_activity room < now - 3600000000 \<or> \<not> r_is_active room \<or>
               r_last_activity room = now - 7200000000"
    then have E: "?E (k, room)" by auto
    with inks[OF kr] have k: "k \<in> set ?ks" by simp
    have "k \<notin> fst ` set (rooms ?m1)"
    proof
      assume "k \<in> fst ` set (rooms ?m1)"
      then obtain room' where in1: "(k, room') \<in> set (rooms ?m1)" by auto
      with rooms have "(k, room') \<in> set (rooms m)" "\<not> ?E (k, room')" by auto
      with d kr E show False by (auto dest: eq_key_imp_eq_value)
    qed
    then have g: "\<forall>code. upper code = k \<longrightarrow> get_room ?m1 code = None"
      by (simp add: get_room_def map_of_eq_None_iff)
    have "\<forall>p \<in> set (r_players room).
            map_of (player_to_room ?m1) (p_id p) = None \<and>
            p_id p \<notin> snd ` set (socket_to_player ?m1)"
      using sw kr k by (simp add: map_of_eq_None_iff) blast
    with g show "(\<forall>code. upper code = k \<longrightarrow> get_room ?m1 code = None) \<and>
              (\<forall>p \<in> set (r_players room).
                 map_of (player_to_room ?m1) (p_id p) = None \<and>
                 p_id p \<notin> snd ` set (socket_to_player ?m1))" by simp
  qed
  from rooms gone show ?thesis by (simp add: split_def)
qed

lemma sweep_cycle_evicts_expired_example:
  "rooms (cleanup_inactive_rooms registry_bound 7200000400) = [] \<and>
   get_room (cleanup_inactive_rooms registry_bound 7200000400) ''abc123'' = None \<and>
   map_of (player_to_room (cleanup_inactive_rooms registry_bound 7200000400)) ''p-ash'' = None \<and>
   ''p-ash'' \<notin> snd ` set (socket_to_player (cleanup_inactive_rooms registry_bound 7200000400))"
proof -
  let ?r = "the (map_of (rooms registry_bound) ''ABC123'')"
  let ?m1 = "cleanup_inactive_rooms registry_bound 7200000400"
  have inv: "registry_inv registry_bound" by code_simp
  have kr: "(''ABC123'', ?r) \<in> set (rooms registry_bound)" by code_simp
  have e: "r_last_activity ?r = 7200000400 - 7200000000" by code_simp
  have u: "upper ''abc123'' = ''ABC123''" by code_simp
  have p: "hd (r_players ?r) \<in> set (r_players ?r)" by code_simp
  have i: "p_id (hd (r_players ?r)) = ''p-ash''" by code_simp
  have f: "filter (\<lambda>(k, room). \<not> (r_last_activity room < 7200000400 - 3600000000 \<or>
                                   \<not> r_is_active room)) (rooms registry_bound) = []"
    by code_simp
  note t = sweep_cycle_evicts_expired[OF inv, of 7200000400]
  from t f have c1: "rooms ?m1 = []" by simp
  from bspec[OF t[THEN conjunct2] kr] e
  have g: "(\<forall>code. upper code = ''ABC123'' \<longrightarrow> get_room ?m1 code = None) \<and>
           (\<forall>p \<in> set (r_players ?r).
               map_of (player_to_room ?m1) (p_id p) = None \<and>
               p_id p \<notin> snd ` set (socket_to_player ?m1))"
    by simp
  from g u have c2: "get_room ?m1 ''abc123'' = None" by blast
  from g p i have c3: "map_of (player_to_room ?m1) ''p-ash'' = None \<and>
                       ''p-ash'' \<notin> snd ` set (socket_to_player ?m1)"
    by (metis (no_types, lifting))
  from c1 c2 c3 show ?thesis by simp
qed


text \<open>
  C9. One sweep cycle is specified to remove an expired room together with the index
  entries of its members. Take the registry in which Ash, alone in room ABC123, was
  bound to connection s1 and then to s2, with the last activity two hours in the past.
  The cycle removes the room and the player entry, and \<open>get_room\<close> no longer finds the
  room, but the connection entry of s2 still names Ash: \<open>leave_room\<close> removes only the
  first connection entry of a player.
\<close>

theorem sweep_leaves_stale_connection_entry:
  "map_of (rooms registry_rebound) ''ABC123'' \<noteq> None \<and>
   rooms_to_remove registry_rebound 7200000400 = [''ABC123''] \<and>
   rooms (cleanup_inactive_rooms registry_rebound 7200000400) = [] \<and>
   player_to_room (cleanup_inactive_rooms registry_rebound 7200000400) = [] \<and>
   get_room (cleanup_inactive_rooms registry_rebound 7200000400) ''ABC123'' = None \<and>
   socket_to_player (cleanup_inactive_rooms registry_rebound 7200000400) =
     [(''s2'', ''p-ash'')]"
  by code_simp

section \<open>The dispatcher\<close>

lemma send_message_unicast:
  "fst (send_message s socket_id message) = unicast s socket_id message"
proof (cases "map_of (active_connections s) socket_id")
  case None
  then have "socket_id \<notin> fst ` set (active_connections s)" by (simp add: map_of_eq_None_iff)
  then show ?thesis using None by (simp add: send_message_def unicast_def)
next
  case (Some can_send)
  then show ?thesis by (auto simp: send_message_def unicast_def disconnect_def)
qed

lemma error_message_serializable:
  "json_serializable (error_message text)"
  by (simp add: error_message_def envelope_def)

text \<open>
  C7. Let the sender of a \<open>link_cable_data\<close> message resolve through the connection
  index to a room and a member, and let the data of the message be a mapping. If the
  link flag of the room is false, or no other member has a (non-empty) connection
  handle, the handler makes one \<open>send_message\<close> call, an error message to the sender,
  and nothing else. Otherwise it makes one \<open>send_message\<close> call, to the handle of the
  first other member that has one, carrying action, payload, the sender's name as
  \<open>from_player\<close>, and timestamp; the call hands the message to the transport when that
  handle is registered in the connection table with a working transport and the
  message serialises, and otherwise drops it without any reply to the sender. In every
  case the registry is left as it was (a send changes only the \<open>sent\<close> log and the
  connection table).
\<close>

theorem link_cable_relay:
  assumes "get_player_by_socket (room_manager s) socket_id = Some (room, sender)"
  shows "handle_link_cable_data s socket_id (PDict kvs) =
           Inr (if \<not> r_link_cable_connected room
                then unicast s socket_id (error_message ''Link cable not connected'')
                else
                  (case find (\<lambda>player. p_id player \<noteq> p_id sender \<and> truthy (p_socket_id player))
                          (r_players room) of
                     None \<Rightarrow> unicast s socket_id (error_message ''No other player connected'')
                   | Some other_player \<Rightarrow>
                       unicast s (the (p_socket_id other_player))
                         (envelope ''link_cable_data''
                            [(''action'', case map_of kvs ''action'' of None \<Rightarrow> PNone | Some v \<Rightarrow> v),
                             (''payload'', case map_of kvs ''payload'' of
                                             None \<Rightarrow> PDict [] | Some v \<Rightarrow> v),
                             (''from_player'', PStr (p_name sender)),
                             (''timestamp'', case map_of kvs ''timestamp'' of
                                               None \<Rightarrow> PNone | Some v \<Rightarrow> v)]))) \<and>
         room_manager (unicast s target message) = room_manager s \<and>
         sent (unicast s target message) =
           sent s @ [(target, message,
                      map_of (active_connections s) target = Some True \<and>
                      json_serializable message)]"
  using assms
  by (simp add: handle_link_cable_data_def py_get_def send_message_unicast unicast_def Let_def
           split: option.splits)

theorem link_cable_relay_witness:
  "handle_link_cable_data server_bound ''s1'' (PDict [(''action'', PStr ''trade_request'')]) =
     Inr (unicast server_bound ''s2''
            (envelope ''link_cable_data''
               [(''action'', PStr ''trade_request''), (''payload'', PDict []),
                (''from_player'', PStr ''Ash''), (''timestamp'', PNone)])) \<and>
   handle_link_cable_data (server_bound\<lparr>room_manager := registry_rebound\<rparr>) ''s2''
     (PDict [(''action'', PStr ''trade_request'')]) =
     Inr (unicast (server_bound\<lparr>room_manager := registry_rebound\<rparr>) ''s2''
            (error_message ''Link cable not connected''))"
proof -
  let ?r = "the (get_player_by_socket (room_manager server_bound) ''s1'')"
  let ?s2 = "server_bound\<lparr>room_manager := registry_rebound\<rparr>"
  let ?r2 = "the (get_player_by_socket (room_manager ?s2) ''s2'')"
  have h: "get_player_by_socket (room_manager server_bound) ''s1'' = Some (fst ?r, snd ?r)"
    by code_simp
  have f1: "r_link_cable_connected (fst ?r)" by code_simp
  have f2: "find (\<lambda>player. p_id player \<noteq> p_id (snd ?r) \<and> truthy (p_socket_id player))
              (r_players (fst ?r)) = Some (hd (tl (r_players (fst ?r))))" by code_simp
  have f3: "p_socket_id (hd (tl (r_players (fst ?r)))) = Some ''s2''" by code_simp
  have f4: "p_name (snd ?r) = ''Ash''" by code_simp
  have h2: "get_player_by_socket (room_manager ?s2) ''s2'' = Some (fst ?r2, snd ?r2)"
    by code_simp
  have g1: "\<not> r_link_cable_connected (fst ?r2)" by code_simp
  from link_cable_relay[OF h, of "[(''action'', PStr ''trade_request'')]", THEN conjunct1]
       f1 f2 f3 f4
  have c1: "handle_link_cable_data server_bound ''s1''
              (PDict [(''action'', PStr ''trade_request'')]) =
     Inr (unicast server_bound ''s2''
            (envelope ''link_cable_data''
               [(''action'', PStr ''trade_request''), (''payload'', PDict []),
                (''from_player'', PStr ''Ash''), (''timestamp'', PNone)]))"
    by simp
  from link_cable_relay[OF h2, of "[(''action'', PStr ''trade_request'')]", THEN conjunct1] g1
  have c2: "handle_link_cable_data ?s2 ''s2'' (PDict [(''action'', PStr ''trade_request'')]) =
     Inr (unicast ?s2 ''s2'' (error_message ''Link cable not connected''))"
    by simp
  from c1 c2 show ?thesis by simp
qed

text \<open>
  The claim as stated fails when the other member has a connection handle that is no
  longer registered in the connection table (as after a failed send to it): the link
  flag is true and no second member holds a live connection, yet the sender gets no
  error reply; the only \<open>send_message\<close> call goes to the dead handle and delivers
  nothing.
\<close>

theorem link_cable_dead_handle_counterexample:
  "handle_link_cable_data (server_bound\<lparr>active_connections := [(''s1'', True)]\<rparr>) ''s1''
     (PDict [(''action'', PStr ''trade_request'')]) =
   Inr (server_bound\<lparr>active_connections := [(''s1'', True)],
          sent := [(''s2'',
                    envelope ''link_cable_data''
                      [(''action'', PStr ''trade_request''), (''payload'', PDict []),
                       (''from_player'', PStr ''Ash''), (''timestamp'', PNone)],
                    False)]\<rparr>)"
  by code_simp

text \<open>A handler that raises has changed nothing yet.\<close>

lemma handle_join_room_raise:
  "handle_join_room s socket_id data now = Inl (e, s1) \<Longrightarrow> s1 = s"
  by (auto simp: handle_join_room_def Let_def
           split: sum.splits if_splits pyval.splits prod.splits option.splits)

lemma handle_leave_room_raise:
  "handle_leave_room s socket_id = Inl (e, s1) \<Longrightarrow> s1 = s"
  by (auto simp: handle_leave_room_def Let_def split: prod.splits option.splits)

lemma handle_link_cable_data_raise:
  "handle_link_cable_data s socket_id data = Inl (e, s1) \<Longrightarrow> s1 = s"
  by (auto simp: handle_link_cable_data_def Let_def
           split: sum.splits if_splits prod.splits option.splits)

lemma handle_player_status_raise:
  "handle_player_status s socket_id data now = Inl (e, s1) \<Longrightarrow> s1 = s"
  by (auto simp: handle_player_status_def Let_def
           split: sum.splits if_splits pyval.splits prod.splits option.splits)

lemma handle_save_state_raise:
  "handle_save_state s socket_id data = Inl (e, s1) \<Longrightarrow> s1 = s"
  by (auto simp: handle_save_state_def Let_def
           split: sum.splits if_splits prod.splits option.splits)

lemma dispatch_raise:
  "dispatch s socket_id message_data now = Inl (e, s1) \<Longrightarrow> s1 = s"
  by (auto simp: dispatch_def split: sum.splits if_splits
      dest: handle_join_room_raise handle_leave_room_raise handle_link_cable_data_raise
            handle_player_status_raise handle_save_state_raise)

text \<open>
  What the dispatch boundary does. \<open>handle_message\<close> always returns a state. For a
  \<open>join_room\<close> message whose data is a mapping with a missing or falsy \<open>player_id\<close>, for
  one whose \<open>player_id\<close> is a string that \<open>connect_socket\<close> cannot bind, and for one whose
  \<open>player_id\<close> is a truthy number or boolean, its whole effect is one \<open>send_message\<close>
  call: an error message to the sender. Whenever the body of the handler raises,
  nothing had been changed or sent before, and the whole effect is one \<open>send_message\<close>
  call with the generic error message to the sender. Such a call leaves the registry
  alone, adds to \<open>sent\<close> one entry addressed to the sender, and keeps a working
  registered connection of the sender in the connection table.
\<close>

lemma dispatch_boundary_errors:
  "(py_get message_data ''type'' PNone = Inr (PStr ''join_room'') \<and>
    py_get message_data ''data'' (PDict []) = Inr (PDict kvs) \<and>
    \<not> py_truthy (case map_of kvs ''player_id'' of None \<Rightarrow> PNone | Some v \<Rightarrow> v)
    \<longrightarrow> handle_message s socket_id message_data now =
          unicast s socket_id (error_message ''Player ID required'')) \<and>
   (py_get message_data ''type'' PNone = Inr (PStr ''join_room'') \<and>
    py_get message_data ''data'' (PDict []) = Inr (PDict kvs) \<and>
    map_of kvs ''player_id'' = Some (PStr pid) \<and> pid \<noteq> [] \<and>
    \<not> snd (connect_socket (room_manager s) socket_id pid now)
    \<longrightarrow> handle_message s socket_id message_data now =
          unicast s socket_id (error_message ''Failed to join room'')) \<and>
   (dispatch s socket_id message_data now = Inl (e, s1)
    \<longrightarrow> s1 = s \<and>
        handle_message s socket_id message_data now =
          unicast s socket_id (error_message ''Failed to process message'')) \<and>
   (py_get message_data ''type'' PNone = Inr (PStr ''join_room'') \<and>
    py_get message_data ''data'' (PDict []) = Inr (PDict kvs) \<and>
    (map_of kvs ''player_id'' = Some (PBool True) \<or>
     map_of kvs ''player_id'' = Some (PInt n) \<and> n \<noteq> 0)
    \<longrightarrow> handle_message s socket_id message_data now =
          unicast s socket_id (error_message ''Failed to join room'')) \<and>
   room_manager (unicast s socket_id (error_message reason)) = room_manager s \<and>
   sent (unicast s socket_id (error_message reason)) =
     sent s @ [(socket_id, error_message reason,
                map_of (active_connections s) socket_id = Some True)] \<and>
   (map_of (active_connections s) socket_id = Some True
    \<longrightarrow> active_connections (unicast s socket_id (error_message reason)) = active_connections s)"
proof (intro conjI impI)
  assume "py_get message_data ''type'' PNone = Inr (PStr ''join_room'') \<and>
    py_get message_data ''data'' (PDict []) = Inr (PDict kvs) \<and>
    \<not> py_truthy (case map_of kvs ''player_id'' of None \<Rightarrow> PNone | Some v \<Rightarrow> v)"
  then show "handle_message s socket_id message_data now =
          unicast s socket_id (error_message ''Player ID required'')"
    by (simp add: handle_message_def dispatch_def handle_join_room_def py_get_def
                  send_message_unicast)
next
  assume a: "py_get message_data ''type'' PNone = Inr (PStr ''join_room'') \<and>
    py_get message_data ''data'' (PDict []) = Inr (PDict kvs) \<and>
    map_of kvs ''player_id'' = Some (PStr pid) \<and> pid \<noteq> [] \<and>
    \<not> snd (connect_socket (room_manager s) socket_id pid now)"
  obtain rm ok where c: "connect_socket (room_manager s) socket_id pid now = (rm, ok)"
    by (cases "connect_socket (room_manager s) socket_id pid now")
  with a have nok: "\<not> ok" by simp
  from a have g: "py_get (PDict kvs) ''player_id'' PNone = Inr (PStr pid)"
    by (simp add: py_get_def)
  from a c nok g show "handle_message s socket_id message_data now =
          unicast s socket_id (error_message ''Failed to join room'')"
    by (simp add: handle_message_def dispatch_def handle_join_room_def send_message_unicast)
next
  assume a: "dispatch s socket_id message_data now = Inl (e, s1)"
  then show "s1 = s" by (rule dispatch_raise)
  with a show "handle_message s socket_id message_data now =
          unicast s socket_id (error_message ''Failed to process message'')"
    by (simp add: handle_message_def send_message_unicast)
next
  assume "py_get message_data ''type'' PNone = Inr (PStr ''join_room'') \<and>
    py_get message_data ''data'' (PDict []) = Inr (PDict kvs) \<and>
    (map_of kvs ''player_id'' = Some (PBool True) \<or>
     map_of kvs ''player_id'' = Some (PInt n) \<and> n \<noteq> 0)"
  then show "handle_message s socket_id message_data now =
          unicast s socket_id (error_message ''Failed to join room'')"
    by (auto simp: handle_message_def dispatch_def handle_join_room_def py_get_def
                   send_message_unicast)
next
  show "room_manager (unicast s socket_id (error_message reason)) = room_manager s"
    by (simp add: unicast_def Let_def)
  show "sent (unicast s socket_id (error_message reason)) =
     sent s @ [(socket_id, error_message reason,
                map_of (active_connections s) socket_id = Some True)]"
    by (simp add: unicast_def Let_def error_message_serializable)
next
  assume "map_of (active_connections s) socket_id = Some True"
  then show "active_connections (unicast s socket_id (error_message reason)) =
               active_connections s"
    by (simp add: unicast_def Let_def error_message_serializable)
qed

lemma dispatch_boundary_errors_example:
  "handle_message server_bound ''s1'' (envelope ''join_room'' []) 500 =
     unicast server_bound ''s1'' (error_message ''Player ID required'') \<and>
   handle_message server_bound ''s1''
     (envelope ''join_room'' [(''player_id'', PStr ''nobody'')]) 500 =
     unicast server_bound ''s1'' (error_message ''Failed to join room'') \<and>
   handle_message server_bound ''s1'' (PList []) 500 =
     unicast server_bound ''s1'' (error_message ''Failed to process message'') \<and>
   handle_message server_bound ''s1''
     (envelope ''join_room'' [(''player_id'', PList [PInt 1])]) 500 =
     unicast server_bound ''s1'' (error_message ''Failed to process message'') \<and>
   active_connections (unicast server_bound ''s1'' (error_message ''Failed to process message'')) =
     active_connections server_bound"
proof -
  let ?m1 = "envelope ''join_room'' []"
  let ?m2 = "envelope ''join_room'' [(''player_id'', PStr ''nobody'')]"
  let ?m4 = "envelope ''join_room'' [(''player_id'', PList [PInt 1])]"
  have t1: "py_get ?m1 ''type'' PNone = Inr (PStr ''join_room'')" by code_simp
  have d1: "py_get ?m1 ''data'' (PDict []) = Inr (PDict [])" by code_simp
  have p1: "\<not> py_truthy (case map_of [] ''player_id'' of None \<Rightarrow> PNone | Some v \<Rightarrow> v)"
    by simp
  have t2: "py_get ?m2 ''type'' PNone = Inr (PStr ''join_room'')" by code_simp
  have d2: "py_get ?m2 ''data'' (PDict []) = Inr (PDict [(''player_id'', PStr ''nobody'')])"
    by code_simp
  have p2: "map_of [(''player_id'', PStr ''nobody'')] ''player_id'' = Some (PStr ''nobody'')"
    by simp
  have n2: "''nobody'' \<noteq> []" by simp
  have c2: "\<not> snd (connect_socket (room_manager server_bound) ''s1'' ''nobody'' 500)"
    by code_simp
  have e3: "dispatch server_bound ''s1'' (PList []) 500 = Inl (AttributeError, server_bound)"
    by code_simp
  have e4: "dispatch server_bound ''s1'' ?m4 500 = Inl (TypeError, server_bound)"
    by code_simp
  have l: "map_of (active_connections server_bound) ''s1'' = Some True" by code_simp
  note a = dispatch_boundary_errors[where message_data="?m1" and kvs="[]" and s=server_bound
             and socket_id="''s1''" and now=500,
             THEN conjunct1, rule_format, OF conjI, OF t1 conjI, OF d1 p1]
  note b = dispatch_boundary_errors[where message_data="?m2"
             and kvs="[(''player_id'', PStr ''nobody'')]" and pid="''nobody''"
             and s=server_bound and socket_id="''s1''" and now=500,
             THEN conjunct2, THEN conjunct1, rule_format, OF conjI, OF t2 conjI, OF d2 conjI,
             OF p2 conjI, OF n2 c2]
  note c = dispatch_boundary_errors[where message_data="PList []" and s=server_bound
             and socket_id="''s1''" and now=500,
             THEN conjunct2, THEN conjunct2, THEN conjunct1, rule_format, OF e3,
             THEN conjunct2]
  note d = dispatch_boundary_errors[where message_data="?m4" and s=server_bound
             and socket_id="''s1''" and now=500,
             THEN conjunct2, THEN conjunct2, THEN conjunct1, rule_format, OF e4,
             THEN conjunct2]
  note k = dispatch_boundary_errors[where s=server_bound and socket_id="''s1''"
             and reason="''Failed to process message''",
             THEN conjunct2, THEN conjunct2, THEN conjunct2, THEN conjunct2, THEN conjunct2,
             THEN conjunct2, rule_format, OF l]
  from a b c d k show ?thesis by simp
qed

text \<open>
  C8. The dispatcher is specified to turn any exception raised while a message is
  handled into a generic error reply to the sender, and never to tear down the sender's
  connection. Take the server in which Ash (connection s1) and Misty (connection s2)
  are bound and both connections are registered and working, and let Ash send a valid
  \<open>join_room\<close> message on s1. The handler does not raise. Inside \<open>send_message\<close>,
  \<open>json.dumps\<close> raises \<open>TypeError\<close> on the room snapshot, which holds \<open>datetime\<close> objects,
  and \<open>send_message\<close> swallows the exception and unregisters the connection. So the
  notice to s2 and the reply to s1 both fail, no error message is sent to anyone, and
  the connection table ends empty: the sender's own connection is gone.
\<close>

theorem valid_join_unregisters_sender:
  "map_of (active_connections server_bound) ''s1'' = Some True \<and>
   get_player_room (room_manager server_bound) ''p-ash'' \<noteq> None \<and>
   \<not> isl (dispatch server_bound ''s1''
            (envelope ''join_room'' [(''player_id'', PStr ''p-ash'')]) 500) \<and>
   map (\<lambda>e. (fst e, py_get (fst (snd e)) ''type'' PNone, snd (snd e)))
     (sent (handle_message server_bound ''s1''
              (envelope ''join_room'' [(''player_id'', PStr ''p-ash'')]) 500)) =
     [(''s2'', Inr (PStr ''player_joined''), False),
      (''s1'', Inr (PStr ''room_joined''), False)] \<and>
   active_connections
     (handle_message server_bound ''s1''
        (envelope ''join_room'' [(''player_id'', PStr ''p-ash'')]) 500) = []"
  by code_simp

end
